theory Spec2Isabelle
  imports Main
begin

section \<open>The store: one record per table of \<^verbatim>\<open>create_tables\<close>\<close>

text \<open>
  The bot of \<^verbatim>\<open>App.py\<close> keeps all of its state in a relational store. The model
  passes the store explicitly: every handler takes the store and returns the new one
  together with the reply it sends. Conventions of the embedding:

  \<^item> SQL \<^verbatim>\<open>INTEGER\<close>/\<^verbatim>\<open>BIGINT\<close> columns and Python integers are \<open>int\<close>. The store
    rejects a value outside a column's range with an error and never wraps it; that
    error, like a lost connection, is outside the model.
  \<^item> \<^verbatim>\<open>TEXT\<close> columns are \<open>string\<close>. The Cyrillic literals of the source
    (rarities, part types, roles) are written in Latin transliteration, one distinct
    literal per source literal, in the source's order.
  \<^item> \<^verbatim>\<open>TIMESTAMP\<close> values and \<^verbatim>\<open>datetime\<close> objects are \<open>int\<close>: microseconds
    since a fixed epoch, the resolution of both.
  \<^item> \<^verbatim>\<open>users\<close> has a primary key and is a map from the id to the row. The other
    tables are lists of rows in storage order; the \<^verbatim>\<open>UNIQUE\<close> constraint of
    \<^verbatim>\<open>parts\<close> is the predicate \<open>parts_unique\<close>.
  \<^item> A \<^verbatim>\<open>SERIAL\<close> column is a counter of the ids handed out so far; the next id
    is the counter plus one, so ids start at 1.
  \<^item> The \<^verbatim>\<open>created_at\<close> columns, the ids of \<^verbatim>\<open>parts\<close> and \<^verbatim>\<open>spins_log\<close> and the
    table \<^verbatim>\<open>squads\<close> are read by none of the modelled handlers and are left out.
  \<^item> Values of \<^verbatim>\<open>secrets.randbelow\<close> and \<^verbatim>\<open>ORDER BY RANDOM()\<close> are parameters:
    the handler is a function of the numbers the random source returned.
\<close>

record user_row =
  username :: "string option"
  nickname :: "string option"
  coins :: int
  last_spin :: "int option"

record template_row =
  t_id :: int
  t_name :: string
  t_rarity :: string
  t_role :: string
  t_description :: string
  t_base_value :: int

record part_row =
  p_user_id :: int
  p_template_id :: int
  p_part_type :: string
  p_rarity :: string
  p_amount :: int

record bee_row =
  b_id :: int
  b_user_id :: int
  b_template_id :: int
  b_rarity :: string
  b_role :: string
  b_level :: int
  b_exp :: int

record listing_row =
  l_id :: int
  l_seller_id :: int
  l_bee_id :: int
  l_price :: int

record spin_row =
  sp_user_id :: int
  sp_template_id :: int
  sp_part_type :: string
  sp_rarity :: string
  sp_amount :: int

record db =
  users :: "int \<rightharpoonup> user_row"
  bee_templates :: "template_row list"
  parts :: "part_row list"
  bees :: "bee_row list"
  bees_seq :: nat
  market_listings :: "listing_row list"
  market_listings_seq :: nat
  spins_log :: "spin_row list"

section \<open>Game configuration\<close>

definition RARITIES :: "string list" where
  "RARITIES = [''Obychnaya'', ''Sverkhredkaya'', ''Epicheskaya'', ''Legendarnaya'',
     ''Mificheskaya'', ''Dikaya'']"

definition PART_TYPES :: "string list" where
  "PART_TYPES = [''krylya'', ''teltse'', ''zhalo'', ''golova'']"

definition ROLES :: "string list" where
  "ROLES = [''Tank'', ''Khiller'', ''Sapport'']"

text \<open>\<^verbatim>\<open>secrets.choice(seq)\<close> is \<^verbatim>\<open>seq[randbelow(len(seq))]\<close>; \<open>k\<close> is the value
  \<^verbatim>\<open>randbelow\<close> returned, so \<open>k < length seq\<close>.\<close>

definition choice :: "'a list \<Rightarrow> nat \<Rightarrow> 'a" where
  "choice seq k = seq ! k"

text \<open>\<open>rb\<close> is the value of \<^verbatim>\<open>secrets.randbelow(100)\<close>, so the roll is \<open>r = rb + 1\<close>;
  \<open>k\<close> is the index \<^verbatim>\<open>secrets.choice\<close> draws on a three-element list.\<close>

definition draw_amount :: "nat \<Rightarrow> nat \<Rightarrow> int" where
  "draw_amount rb k =
     (let r = rb + 1 in
      if r \<le> 45 then choice [1, 2, 3] k
      else if r \<le> 45 + 35 then choice [4, 5, 6] k
      else if r \<le> 45 + 35 + 15 then choice [7, 8, 9] k
      else 10)"

text \<open>\<^verbatim>\<open>RARITY_BASE_VALUE.get(rarity, 10)\<close>: the dictionary with the default of the
  one place that reads it.\<close>

definition RARITY_BASE_VALUE :: "string \<rightharpoonup> int" where
  "RARITY_BASE_VALUE = map_of
     [(''Obychnaya'', 50), (''Sverkhredkaya'', 200), (''Epicheskaya'', 800),
      (''Legendarnaya'', 3000), (''Mificheskaya'', 12000), (''Dikaya'', 50000)]"

definition get_or :: "('k \<rightharpoonup> 'v) \<Rightarrow> 'k \<Rightarrow> 'v \<Rightarrow> 'v" where
  "get_or d k dflt = (case d k of None \<Rightarrow> dflt | Some v \<Rightarrow> v)"

section \<open>Game logic helpers\<close>

text \<open>\<^verbatim>\<open>pick_random_template\<close>: \<^verbatim>\<open>SELECT * FROM bee_templates ORDER BY RANDOM() LIMIT 1\<close>.
  No row when the catalog is empty, else the row at the random position \<open>i\<close>.\<close>

definition pick_random_template :: "db \<Rightarrow> nat \<Rightarrow> template_row option" where
  "pick_random_template s i =
     (if bee_templates s = [] then None else Some (bee_templates s ! i))"

text \<open>The \<^verbatim>\<open>WHERE\<close> clause on the whole key of \<^verbatim>\<open>parts\<close>.\<close>

definition part_key :: "int \<Rightarrow> int \<Rightarrow> string \<Rightarrow> string \<Rightarrow> part_row \<Rightarrow> bool" where
  "part_key user_id template_id part_type rarity p \<longleftrightarrow>
     p_user_id p = user_id \<and> p_template_id p = template_id
     \<and> p_part_type p = part_type \<and> p_rarity p = rarity"

text \<open>\<^verbatim>\<open>give_parts_to_user\<close>: the upsert into \<^verbatim>\<open>parts\<close> (a row with the key gets
  the amount added, otherwise a row is inserted), then the entry of \<^verbatim>\<open>spins_log\<close>.\<close>

definition give_parts_to_user :: "db \<Rightarrow> int \<Rightarrow> int \<Rightarrow> string \<Rightarrow> string \<Rightarrow> int \<Rightarrow> db" where
  "give_parts_to_user s user_id template_id part_type rarity amount =
     (let upserted =
        (if list_ex (part_key user_id template_id part_type rarity) (parts s)
         then map (\<lambda>p. if part_key user_id template_id part_type rarity p
                        then p\<lparr>p_amount := p_amount p + amount\<rparr> else p) (parts s)
         else parts s @ [\<lparr>p_user_id = user_id, p_template_id = template_id,
                p_part_type = part_type, p_rarity = rarity, p_amount = amount\<rparr>])
      in s\<lparr>parts := upserted,
            spins_log := spins_log s @ [\<lparr>sp_user_id = user_id, sp_template_id = template_id,
                sp_part_type = part_type, sp_rarity = rarity, sp_amount = amount\<rparr>]\<rparr>)"

text \<open>A Python dictionary built from pairs keeps the last value of a repeated key.\<close>

definition dict_of :: "('k \<times> 'v) list \<Rightarrow> ('k \<rightharpoonup> 'v)" where
  "dict_of kvs = map_of (rev kvs)"

text \<open>The statement of the loop body of \<^verbatim>\<open>try_assemble\<close>:
  \<^verbatim>\<open>UPDATE parts SET amount = amount - 1 WHERE\<close> the key matches.\<close>

definition consume_one :: "int \<Rightarrow> int \<Rightarrow> string \<Rightarrow> string \<Rightarrow> part_row list \<Rightarrow> part_row list" where
  "consume_one user_id template_id rarity pt rows =
     map (\<lambda>p. if part_key user_id template_id pt rarity p
               then p\<lparr>p_amount := p_amount p - 1\<rparr> else p) rows"

text \<open>\<^verbatim>\<open>try_assemble\<close>: returns the store and the new bee's id, or \<open>None\<close>. The rows
  read are those of the user, the template and the rarity; \<open>k\<close> is the index
  \<^verbatim>\<open>secrets.choice(ROLES)\<close> draws when the template has no row. A new bee gets the
  column defaults \<^verbatim>\<open>level 1\<close> and \<^verbatim>\<open>exp 0\<close>.\<close>

definition try_assemble :: "db \<Rightarrow> int \<Rightarrow> int \<Rightarrow> string \<Rightarrow> nat \<Rightarrow> db \<times> int option" where
  "try_assemble s user_id template_id rarity k =
     (let rows = filter (\<lambda>p. p_user_id p = user_id \<and> p_template_id p = template_id
                              \<and> p_rarity p = rarity) (parts s);
          parts_map = dict_of (map (\<lambda>r. (p_part_type r, p_amount r)) rows)
      in if list_all (\<lambda>pt. get_or parts_map pt 0 \<ge> 1) PART_TYPES
         then
           (let consumed = fold (consume_one user_id template_id rarity) PART_TYPES (parts s);
                tmpl = find (\<lambda>t. t_id t = template_id) (bee_templates s);
                role = (case tmpl of Some t \<Rightarrow> t_role t | None \<Rightarrow> choice ROLES k);
                new_id = int (bees_seq s) + 1
            in (s\<lparr>parts := consumed,
                   bees := bees s @ [\<lparr>b_id = new_id, b_user_id = user_id,
                       b_template_id = template_id, b_rarity = rarity, b_role = role,
                       b_level = 1, b_exp = 0\<rparr>],
                   bees_seq := Suc (bees_seq s)\<rparr>,
                Some new_id))
         else (s, None))"

text \<open>\<^verbatim>\<open>add_coins\<close>: the upsert of a balance.\<close>

definition add_coins :: "db \<Rightarrow> int \<Rightarrow> int \<Rightarrow> db" where
  "add_coins s user_id amount =
     s\<lparr>users := (users s)(user_id \<mapsto>
        (case users s user_id of
           None \<Rightarrow> \<lparr>username = None, nickname = None, coins = amount, last_spin = None\<rparr>
         | Some u \<Rightarrow> u\<lparr>coins := coins u + amount\<rparr>))\<rparr>"

text \<open>The sender of a message: \<^verbatim>\<open>id\<close>, \<^verbatim>\<open>username\<close> (optional) and \<^verbatim>\<open>full_name\<close>.\<close>

record tg_user =
  tg_id :: int
  tg_username :: "string option"
  tg_full_name :: string

fun str_nat :: "nat \<Rightarrow> string" where
  "str_nat n = (if n < 10 then [char_of (48 + n)]
                else str_nat (n div 10) @ [char_of (48 + n mod 10)])"

definition str_int :: "int \<Rightarrow> string" where
  "str_int i = (if i < 0 then CHR ''-'' # str_nat (nat (- i)) else str_nat (nat i))"

text \<open>Python's \<^verbatim>\<open>x or y\<close> on an optional string: an absent or empty \<open>x\<close> is falsy.\<close>

definition truthy_str :: "string option \<Rightarrow> bool" where
  "truthy_str x = (case x of None \<Rightarrow> False | Some v \<Rightarrow> v \<noteq> [])"

text \<open>\<^verbatim>\<open>ensure_user\<close>: insert the user with no coins, or refresh the username.\<close>

definition ensure_user :: "db \<Rightarrow> tg_user \<Rightarrow> db" where
  "ensure_user s user =
     (let uname = (if truthy_str (tg_username user) then tg_username user else None);
          nick = (if tg_full_name user \<noteq> [] then tg_full_name user
                  else if truthy_str (tg_username user) then the (tg_username user)
                  else ''user'' @ str_int (tg_id user))
      in s\<lparr>users := (users s)(tg_id user \<mapsto>
           (case users s (tg_id user) of
              None \<Rightarrow> \<lparr>username = uname, nickname = Some nick, coins = 0, last_spin = None\<rparr>
            | Some u \<Rightarrow> u\<lparr>username := uname\<rparr>))\<rparr>)"

section \<open>Handlers\<close>

text \<open>What a handler answers. The source answers with a text; each constructor is
  one of its messages, with the values the text carries.\<close>

datatype reply =
    CooldownActive int
  | TemplateMissing
  | SpinResult template_row string int "int option"
  | NoPartsForTemplate
  | Assembled int
  | NotEnoughParts
  | BadPartType
  | InsufficientStock
  | SoldParts int string string int
  | NotOwner
  | Listed int int
  | ListingGone
  | NotFound
  | InsufficientFunds
  | Bought int

text \<open>The numbers the random source returns during one draw: the position of the
  template, the index into \<^verbatim>\<open>PART_TYPES\<close>, \<^verbatim>\<open>randbelow(100)\<close>, the index of the
  quantity and the index into \<^verbatim>\<open>ROLES\<close>.\<close>

record rnd =
  rnd_template :: nat
  rnd_part :: nat
  rnd_roll :: nat
  rnd_qty :: nat
  rnd_role :: nat

text \<open>\<^verbatim>\<open>timedelta(hours=24)\<close> in microseconds.\<close>

definition day :: int where
  "day = 24 * 3600 * 1000000"

text \<open>Python's \<^verbatim>\<open>if bee_id:\<close> on an optional integer: \<open>None\<close> and 0 are falsy.\<close>

definition truthy_id :: "int option \<Rightarrow> bool" where
  "truthy_id x = (case x of None \<Rightarrow> False | Some i \<Rightarrow> i \<noteq> 0)"

text \<open>\<^verbatim>\<open>UPDATE users SET last_spin=$1 WHERE id=$2\<close>.\<close>

definition set_last_spin :: "db \<Rightarrow> int \<Rightarrow> int \<Rightarrow> db" where
  "set_last_spin s user_id now =
     (case users s user_id of
        None \<Rightarrow> s
      | Some u \<Rightarrow> s\<lparr>users := (users s)(user_id \<mapsto> u\<lparr>last_spin := Some now\<rparr>)\<rparr>)"

text \<open>The part of \<^verbatim>\<open>cmd_daily_spin\<close> after the cooldown check
  (\<^verbatim>\<open># Proceed to spin\<close>).\<close>

definition proceed_to_spin :: "db \<Rightarrow> int \<Rightarrow> int \<Rightarrow> rnd \<Rightarrow> db \<times> reply" where
  "proceed_to_spin s user_id now r =
     (case pick_random_template s (rnd_template r) of
        None \<Rightarrow> (s, TemplateMissing)
      | Some tmpl \<Rightarrow>
          (let template_id = t_id tmpl;
               rarity = t_rarity tmpl;
               part_type = choice PART_TYPES (rnd_part r);
               amount = draw_amount (rnd_roll r) (rnd_qty r);
               s1 = give_parts_to_user s user_id template_id part_type rarity amount;
               s2 = set_last_spin s1 user_id now;
               (s3, bee_id) = try_assemble s2 user_id template_id rarity (rnd_role r)
           in (s3, SpinResult tmpl part_type amount
                     (if truthy_id bee_id then bee_id else None))))"

text \<open>\<^verbatim>\<open>cmd_daily_spin\<close>; \<open>now\<close> is \<^verbatim>\<open>datetime.utcnow()\<close>.\<close>

definition cmd_daily_spin :: "db \<Rightarrow> tg_user \<Rightarrow> int \<Rightarrow> rnd \<Rightarrow> db \<times> reply" where
  "cmd_daily_spin s0 user now r =
     (let s = ensure_user s0 user in
      case users s (tg_id user) of
        None \<Rightarrow> proceed_to_spin s (tg_id user) now r
      | Some row \<Rightarrow>
          (case last_spin row of
             None \<Rightarrow> proceed_to_spin s (tg_id user) now r
           | Some last_at \<Rightarrow>
               if now - last_at < day then (s, CooldownActive (day - (now - last_at)))
               else proceed_to_spin s (tg_id user) now r))"

text \<open>\<^verbatim>\<open>rar_order = {r: i for i, r in enumerate(RARITIES)}\<close>, read with the default 999.\<close>

definition rar_order :: "string \<rightharpoonup> nat" where
  "rar_order = dict_of (map (\<lambda>(i, r). (r, i)) (enumerate 0 RARITIES))"

text \<open>The loop of the \<^verbatim>\<open>/assemble\<close> branch: try the rarities in order and stop at the
  first truthy bee id.\<close>

fun try_each :: "db \<Rightarrow> int \<Rightarrow> int \<Rightarrow> nat \<Rightarrow> string list \<Rightarrow> db \<times> int option" where
  "try_each s user_id template_id k [] = (s, None)"
| "try_each s user_id template_id k (rar # rest) =
     (case try_assemble s user_id template_id rar k of
        (s', assembled) \<Rightarrow>
          if truthy_id assembled then (s', assembled)
          else try_each s' user_id template_id k rest)"

text \<open>The \<^verbatim>\<open>/assemble\<close> branch of \<^verbatim>\<open>generic_text\<close>, after the argument is parsed.
  \<^verbatim>\<open>SELECT DISTINCT rarity\<close> is \<open>remdups\<close> on the rows in storage order; the sort is
  the stable sort by \<^verbatim>\<open>rar_order.get(x, 999)\<close>.\<close>

definition cmd_assemble :: "db \<Rightarrow> int \<Rightarrow> int \<Rightarrow> nat \<Rightarrow> db \<times> reply" where
  "cmd_assemble s user_id template_id k =
     (let rows = remdups (map p_rarity
                   (filter (\<lambda>p. p_user_id p = user_id \<and> p_template_id p = template_id
                                 \<and> p_amount p > 0) (parts s)))
      in if rows = [] then (s, NoPartsForTemplate)
         else
           (let rarities = sort_key (\<lambda>x. get_or rar_order x 999) rows in
            case try_each s user_id template_id k rarities of
              (s', assembled) \<Rightarrow>
                (case assembled of
                   None \<Rightarrow> (s', NotEnoughParts)
                 | Some i \<Rightarrow> if i \<noteq> 0 then (s', Assembled i) else (s', NotEnoughParts))))"

text \<open>\<^verbatim>\<open>ORDER BY amount DESC LIMIT 1\<close>: a row of the greatest amount. SQL leaves open
  which one when several rows share it; \<open>tie\<close> selects among them, so every row the
  store may return is the result for some \<open>tie\<close>.\<close>

definition top_by_amount :: "part_row list \<Rightarrow> nat \<Rightarrow> part_row option" where
  "top_by_amount rows tie =
     (if rows = [] then None
      else (let tops = filter (\<lambda>p. p_amount p = Max (set (map p_amount rows))) rows
            in Some (tops ! (tie mod length tops))))"

text \<open>The \<^verbatim>\<open>WHERE user_id=$1 AND template_id=$2 AND part_type=$3\<close> of both statements of
  the \<^verbatim>\<open>/sell_part\<close> branch: the rows of one part of one template, of any rarity.\<close>

definition part_of :: "int \<Rightarrow> int \<Rightarrow> string \<Rightarrow> part_row \<Rightarrow> bool" where
  "part_of user_id template_id part_type p \<longleftrightarrow>
     p_user_id p = user_id \<and> p_template_id p = template_id \<and> p_part_type p = part_type"

text \<open>The \<^verbatim>\<open>/sell_part\<close> branch, after the arguments are parsed: the check of the part
  type, the \<^verbatim>\<open>SELECT ... ORDER BY amount DESC LIMIT 1\<close>, the check of the amount, the
  price, the \<^verbatim>\<open>UPDATE parts ... AND amount>=$1\<close> and the \<^verbatim>\<open>UPDATE users\<close>.\<close>

definition cmd_sell_part :: "db \<Rightarrow> int \<Rightarrow> int \<Rightarrow> string \<Rightarrow> int \<Rightarrow> nat \<Rightarrow> db \<times> reply" where
  "cmd_sell_part s user_id template_id part_type amount tie =
     (if part_type \<notin> set PART_TYPES then (s, BadPartType)
      else
        (case top_by_amount (filter (part_of user_id template_id part_type) (parts s)) tie of
           None \<Rightarrow> (s, InsufficientStock)
         | Some row \<Rightarrow>
             if p_amount row < amount then (s, InsufficientStock)
             else
               (let rarity = p_rarity row;
                    price_per = get_or RARITY_BASE_VALUE rarity 10;
                    total = price_per * amount;
                    reduced = map (\<lambda>p. if part_of user_id template_id part_type p
                                            \<and> p_amount p \<ge> amount
                                         then p\<lparr>p_amount := p_amount p - amount\<rparr> else p) (parts s);
                    credited = (case users s user_id of
                                  None \<Rightarrow> users s
                                | Some u \<Rightarrow> (users s)(user_id \<mapsto> u\<lparr>coins := coins u + total\<rparr>))
                in (s\<lparr>users := credited, parts := reduced\<rparr>,
                    SoldParts amount part_type rarity total))))"

text \<open>The \<^verbatim>\<open>/sell_bee\<close> branch, after the arguments are parsed.\<close>

definition cmd_sell_bee :: "db \<Rightarrow> int \<Rightarrow> int \<Rightarrow> int \<Rightarrow> db \<times> reply" where
  "cmd_sell_bee s user_id bee_id price =
     (case find (\<lambda>b. b_id b = bee_id \<and> b_user_id b = user_id) (bees s) of
        None \<Rightarrow> (s, NotOwner)
      | Some b \<Rightarrow>
          (s\<lparr>market_listings := market_listings s @
                [\<lparr>l_id = int (market_listings_seq s) + 1, l_seller_id = user_id,
                  l_bee_id = bee_id, l_price = price\<rparr>],
              market_listings_seq := Suc (market_listings_seq s)\<rparr>,
           Listed bee_id price))"

subsection \<open>The purchase\<close>

text \<open>Modelled from the spec: \<^verbatim>\<open>EconomyLedger.debit\<close> (section 4.4), which the source
  does not contain: "atomic subtract only if balance \<ge> amount, else InsufficientFunds,
  no state change"; an unknown user is \<^verbatim>\<open>NotFound\<close> (section 7).\<close>

definition debit :: "db \<Rightarrow> int \<Rightarrow> int \<Rightarrow> reply + db" where
  "debit s user_id amount =
     (case users s user_id of
        None \<Rightarrow> Inl NotFound
      | Some u \<Rightarrow>
          if coins u \<ge> amount
          then Inr (s\<lparr>users := (users s)(user_id \<mapsto> u\<lparr>coins := coins u - amount\<rparr>)\<rparr>)
          else Inl InsufficientFunds)"

text \<open>Modelled from the spec: the body of \<^verbatim>\<open>Marketplace.buy\<close> (section 4.5) after the
  lookup of the listing. \<^verbatim>\<open>App.py\<close> ends inside the \<^verbatim>\<open>/buy\<close> branch: only the lookup
  \<^verbatim>\<open>SELECT * FROM market_listings WHERE id=$1\<close> and the test \<^verbatim>\<open>if not listing\<close> are in the
  source. The steps are the spec's: (a) the listing is still there, else \<^verbatim>\<open>ListingGone\<close>;
  (b) debit the buyer, passing on \<^verbatim>\<open>InsufficientFunds\<close>; (c) credit the seller the same
  amount (with \<^verbatim>\<open>add_coins\<close> of the source); (d) transfer the creature to the buyer;
  (e) close the listing. All of them or none.\<close>

definition buy :: "db \<Rightarrow> int \<Rightarrow> int \<Rightarrow> db \<times> reply" where
  "buy s buyer_id listing_id =
     (case find (\<lambda>l. l_id l = listing_id) (market_listings s) of
        None \<Rightarrow> (s, ListingGone)
      | Some listing \<Rightarrow>
          (case debit s buyer_id (l_price listing) of
             Inl err \<Rightarrow> (s, err)
           | Inr s1 \<Rightarrow>
               (let s2 = add_coins s1 (l_seller_id listing) (l_price listing);
                    s3 = s2\<lparr>bees := map (\<lambda>b. if b_id b = l_bee_id listing
                                               then b\<lparr>b_user_id := buyer_id\<rparr> else b) (bees s2)\<rparr>;
                    s4 = s3\<lparr>market_listings :=
                              filter (\<lambda>l. l_id l \<noteq> listing_id) (market_listings s3)\<rparr>
                in (s4, Bought (l_bee_id listing)))))"

section \<open>Observations on the store\<close>

text \<open>The \<^verbatim>\<open>UNIQUE(user_id, template_id, part_type, rarity)\<close> constraint of
  \<^verbatim>\<open>parts\<close>.\<close>

definition parts_unique :: "part_row list \<Rightarrow> bool" where
  "parts_unique rows =
     distinct (map (\<lambda>p. (p_user_id p, p_template_id p, p_part_type p, p_rarity p)) rows)"

text \<open>The amount a user holds of one part: the amount of the row with the key, 0
  when there is no row.\<close>

definition stock :: "part_row list \<Rightarrow> int \<Rightarrow> int \<Rightarrow> string \<Rightarrow> string \<Rightarrow> int" where
  "stock rows user_id template_id part_type rarity =
     (case find (part_key user_id template_id part_type rarity) rows of
        None \<Rightarrow> 0 | Some p \<Rightarrow> p_amount p)"

text \<open>The invariants of the data model: no negative amount in \<^verbatim>\<open>parts\<close>, no negative
  balance in \<^verbatim>\<open>users\<close>.\<close>

definition amounts_nonneg :: "db \<Rightarrow> bool" where
  "amounts_nonneg s = list_all (\<lambda>p. 0 \<le> p_amount p) (parts s)"

definition balances_nonneg :: "db \<Rightarrow> bool" where
  "balances_nonneg s = (\<forall>u row. users s u = Some row \<longrightarrow> 0 \<le> coins row)"

text \<open>The key of a row of \<^verbatim>\<open>parts\<close>.\<close>

definition key_of :: "part_row \<Rightarrow> int \<times> int \<times> string \<times> string" where
  "key_of p = (p_user_id p, p_template_id p, p_part_type p, p_rarity p)"

section \<open>Stores for the concrete evaluations\<close>

text \<open>User 7 holds a full set of template 1
  both as \<^verbatim>\<open>Obychnaya\<close> (the most common rarity) and as \<^verbatim>\<open>Dikaya\<close> (the rarest).\<close>

definition demo_parts :: "part_row list" where
  "demo_parts =
     [\<lparr>p_user_id = 7, p_template_id = 1, p_part_type = ''krylya'', p_rarity = ''Obychnaya'', p_amount = 1\<rparr>,
      \<lparr>p_user_id = 7, p_template_id = 1, p_part_type = ''teltse'', p_rarity = ''Obychnaya'', p_amount = 2\<rparr>,
      \<lparr>p_user_id = 7, p_template_id = 1, p_part_type = ''zhalo'', p_rarity = ''Obychnaya'', p_amount = 1\<rparr>,
      \<lparr>p_user_id = 7, p_template_id = 1, p_part_type = ''golova'', p_rarity = ''Obychnaya'', p_amount = 3\<rparr>,
      \<lparr>p_user_id = 7, p_template_id = 1, p_part_type = ''krylya'', p_rarity = ''Dikaya'', p_amount = 1\<rparr>,
      \<lparr>p_user_id = 7, p_template_id = 1, p_part_type = ''teltse'', p_rarity = ''Dikaya'', p_amount = 1\<rparr>,
      \<lparr>p_user_id = 7, p_template_id = 1, p_part_type = ''zhalo'', p_rarity = ''Dikaya'', p_amount = 1\<rparr>,
      \<lparr>p_user_id = 7, p_template_id = 1, p_part_type = ''golova'', p_rarity = ''Dikaya'', p_amount = 1\<rparr>]"

definition demo_store :: db where
  "demo_store =
     \<lparr>users = [7 \<mapsto> \<lparr>username = Some ''alice'', nickname = Some ''Alice'', coins = 0,
                       last_spin = Some 0\<rparr>,
               8 \<mapsto> \<lparr>username = None, nickname = Some ''Bob'', coins = 50, last_spin = None\<rparr>],
      bee_templates =
        [\<lparr>t_id = 1, t_name = ''Strazh-Oby-1'', t_rarity = ''Obychnaya'', t_role = ''Tank'',
          t_description = ''Tank'', t_base_value = 50\<rparr>],
      parts = demo_parts,
      bees = [],
      bees_seq = 0,
      market_listings = [],
      market_listings_seq = 0,
      spins_log = []\<rparr>"

text \<open>A sender and the numbers of a random source, for the concrete evaluations.\<close>

definition demo_user :: tg_user where
  "demo_user = \<lparr>tg_id = 7, tg_username = Some ''alice'', tg_full_name = ''Alice''\<rparr>"

definition demo_rnd :: rnd where
  "demo_rnd = \<lparr>rnd_template = 0, rnd_part = 0, rnd_roll = 0, rnd_qty = 0, rnd_role = 0\<rparr>"

text \<open>\<open>demo_store\<close> after user 7 has assembled bee 1.\<close>

definition demo_market :: db where
  "demo_market = demo_store
     \<lparr>bees := [\<lparr>b_id = 1, b_user_id = 7, b_template_id = 1, b_rarity = ''Obychnaya'',
                 b_role = ''Tank'', b_level = 1, b_exp = 0\<rparr>],
      bees_seq := 1\<rparr>"

text \<open>\<open>demo_market\<close> after user 7 has listed bee 1 for 100 coins; user 8 holds 50.\<close>

definition demo_listed :: db where
  "demo_listed = demo_market
     \<lparr>market_listings := [\<lparr>l_id = 1, l_seller_id = 7, l_bee_id = 1, l_price = 100\<rparr>],
      market_listings_seq := 1\<rparr>"

section \<open>The quantity law of a draw\<close>

lemma upt_0_3: "[0..<3] = [0, 1, 2]"
  by (simp add: numeral_3_eq_3 numeral_2_eq_2)

text \<open>
  Claim C8. For a percentile roll \<open>r = rb + 1\<close> in \<open>[1, 100]\<close>: when \<open>r \<le> 45\<close> the
  drawn quantity is the choice among \<open>1, 2, 3\<close>, each of the three equiprobable
  indices giving one of them; when \<open>45 < r \<le> 80\<close> likewise among \<open>4, 5, 6\<close>; when
  \<open>80 < r \<le> 95\<close> likewise among \<open>7, 8, 9\<close>; and when \<open>r > 95\<close> it is 10 whatever else
  is drawn.
\<close>

theorem draw_amount_law:
  assumes "rb < 100" and "r = rb + 1"
  shows "1 \<le> r \<and> r \<le> 100
    \<and> (r \<le> 45 \<longrightarrow> map (draw_amount rb) [0..<3] = [1, 2, 3])
    \<and> (45 < r \<and> r \<le> 80 \<longrightarrow> map (draw_amount rb) [0..<3] = [4, 5, 6])
    \<and> (80 < r \<and> r \<le> 95 \<longrightarrow> map (draw_amount rb) [0..<3] = [7, 8, 9])
    \<and> (95 < r \<longrightarrow> (\<forall>k. draw_amount rb k = 10))"
  using assms by (simp add: draw_amount_def choice_def upt_0_3)

theorem draw_amount_law_witness:
  "map (draw_amount 44) [0..<3] = [1, 2, 3] \<and> map (draw_amount 45) [0..<3] = [4, 5, 6]
   \<and> map (draw_amount 80) [0..<3] = [7, 8, 9] \<and> draw_amount 99 2 = 10"
proof -
  have lt: "(44::nat) < 100" "(45::nat) < 100" "(80::nat) < 100" "(99::nat) < 100"
    by simp_all
  have eq: "(45::nat) = 44 + 1" "(46::nat) = 45 + 1" "(81::nat) = 80 + 1"
    "(100::nat) = 99 + 1"
    by simp_all
  have a: "map (draw_amount 44) [0..<3] = [1, 2, 3]"
    using draw_amount_law [OF lt(1) eq(1)] by simp
  have b: "map (draw_amount 45) [0..<3] = [4, 5, 6]"
    using draw_amount_law [OF lt(2) eq(2)] by simp
  have c: "map (draw_amount 80) [0..<3] = [7, 8, 9]"
    using draw_amount_law [OF lt(3) eq(3)] by simp
  have d: "draw_amount 99 2 = 10"
    using draw_amount_law [OF lt(4) eq(4)] by simp
  from a b c d show ?thesis by blast
qed

section \<open>Assembly\<close>

subsection \<open>Reading the rows of \<^verbatim>\<open>parts\<close>\<close>

lemma dict_of_distinct: "distinct (map fst kvs) \<Longrightarrow> dict_of kvs = map_of kvs"
  unfolding dict_of_def
  by (rule iffD2 [OF map_of_inject_set]) (simp_all add: distinct_rev rev_map [symmetric])

lemma distinct_part_types:
  "parts_unique rows \<Longrightarrow>
   distinct (map p_part_type (filter (\<lambda>p. p_user_id p = u \<and> p_template_id p = t
      \<and> p_rarity p = r) rows))"
proof (induction rows)
  case Nil
  then show ?case by simp
next
  case (Cons p rows)
  then have IH: "distinct (map p_part_type (filter (\<lambda>p. p_user_id p = u \<and> p_template_id p = t
      \<and> p_rarity p = r) rows))"
    by (simp add: parts_unique_def)
  from Cons.prems have notin: "(p_user_id p, p_template_id p, p_part_type p, p_rarity p)
     \<notin> (\<lambda>p. (p_user_id p, p_template_id p, p_part_type p, p_rarity p)) ` set rows"
    by (simp add: parts_unique_def)
  show ?case using IH notin by (auto simp: image_iff)
qed

lemma map_of_rows_find:
  "map_of (map (\<lambda>p. (p_part_type p, p_amount p))
      (filter (\<lambda>p. p_user_id p = u \<and> p_template_id p = t \<and> p_rarity p = r) rows)) pt
   = map_option p_amount (find (part_key u t pt r) rows)"
  by (induction rows) (auto simp: part_key_def)

lemma parts_map_stock:
  assumes "parts_unique rows"
  shows "get_or (dict_of (map (\<lambda>p. (p_part_type p, p_amount p))
      (filter (\<lambda>p. p_user_id p = u \<and> p_template_id p = t \<and> p_rarity p = r) rows))) pt 0
    = stock rows u t pt r"
proof -
  have "distinct (map fst (map (\<lambda>p. (p_part_type p, p_amount p))
      (filter (\<lambda>p. p_user_id p = u \<and> p_template_id p = t \<and> p_rarity p = r) rows)))"
    using distinct_part_types [OF assms, of u t r] by (simp add: comp_def)
  then show ?thesis
    by (simp add: dict_of_distinct map_of_rows_find get_or_def stock_def split: option.splits)
qed

lemma find_map_same:
  "(\<And>x. P (f x) = P x) \<Longrightarrow> find P (map f xs) = map_option f (find P xs)"
  by (induction xs) auto

lemma part_key_amount:
  "part_key u t pt r (p\<lparr>p_amount := a\<rparr>) = part_key u t pt r p"
  by (simp add: part_key_def)

lemma stock_consume_one:
  "stock (consume_one u t r pt rows) u' t' pt' r'
   = stock rows u' t' pt' r'
     - (if u' = u \<and> t' = t \<and> pt' = pt \<and> r' = r \<and> list_ex (part_key u t pt r) rows
        then 1 else 0)"
proof (induction rows)
  case Nil
  show ?case by (simp add: stock_def consume_one_def)
next
  case (Cons p rows)
  show ?case
  proof (cases "part_key u' t' pt' r' p")
    case True
    then show ?thesis
      by (auto simp: stock_def consume_one_def part_key_def)
  next
    case False
    then have "stock (consume_one u t r pt (p # rows)) u' t' pt' r'
        = stock (consume_one u t r pt rows) u' t' pt' r'"
      by (simp add: stock_def consume_one_def part_key_amount)
    moreover from False have "stock (p # rows) u' t' pt' r' = stock rows u' t' pt' r'"
      by (simp add: stock_def)
    moreover from False have "(u' = u \<and> t' = t \<and> pt' = pt \<and> r' = r
         \<and> list_ex (part_key u t pt r) (p # rows))
       = (u' = u \<and> t' = t \<and> pt' = pt \<and> r' = r \<and> list_ex (part_key u t pt r) rows)"
      by auto
    ultimately show ?thesis using Cons.IH by simp
  qed
qed

lemma list_ex_consume_one:
  "list_ex (part_key u' t' pt' r') (consume_one u t r pt rows)
   = list_ex (part_key u' t' pt' r') rows"
  by (induction rows) (simp_all add: consume_one_def part_key_amount)


lemma stock_pos_ex:
  "1 \<le> stock rows u t pt r \<Longrightarrow> list_ex (part_key u t pt r) rows"
  by (induction rows) (auto simp: stock_def split: if_splits)

lemma stock_fold_consume:
  "stock (fold (consume_one u t r) PART_TYPES rows) u' t' pt' r'
   = stock rows u' t' pt' r'
     - (if u' = u \<and> t' = t \<and> r' = r \<and> pt' \<in> set PART_TYPES
           \<and> list_ex (part_key u t pt' r) rows
        then 1 else 0)"
  unfolding PART_TYPES_def
  by (auto simp: stock_consume_one list_ex_consume_one)

lemma try_assemble_cond:
  assumes "parts_unique (parts s)"
  shows "try_assemble s u t r k =
     (if list_all (\<lambda>pt. 1 \<le> stock (parts s) u t pt r) PART_TYPES
      then (s\<lparr>parts := fold (consume_one u t r) PART_TYPES (parts s),
              bees := bees s @ [\<lparr>b_id = int (bees_seq s) + 1, b_user_id = u,
                  b_template_id = t, b_rarity = r,
                  b_role = (case find (\<lambda>x. t_id x = t) (bee_templates s) of
                              Some x \<Rightarrow> t_role x | None \<Rightarrow> choice ROLES k),
                  b_level = 1, b_exp = 0\<rparr>],
              bees_seq := Suc (bees_seq s)\<rparr>, Some (int (bees_seq s) + 1))
      else (s, None))"
  unfolding try_assemble_def Let_def
  by (simp only: parts_map_stock [OF assms])

lemma demo_unique: "parts_unique (parts demo_store)"
  by (simp add: demo_store_def demo_parts_def parts_unique_def)

lemma demo_stock_common:
  "\<forall>pt \<in> set PART_TYPES. 1 \<le> stock (parts demo_store) 7 1 pt ''Obychnaya''"
  by (simp add: demo_store_def demo_parts_def PART_TYPES_def stock_def part_key_def)

subsection \<open>One attempt\<close>

text \<open>
  Claim C1. For every user, template and rarity (on a table that satisfies its
  \<^verbatim>\<open>UNIQUE\<close> constraint), \<^verbatim>\<open>try_assemble\<close> returns a bee id if and only if the user's
  stock is at least 1 for each of the four part types at that template and rarity. When
  it does, every one of these four stocks is one less, every other stock is the same,
  and one bee is appended, owned by the user, of the template and the rarity, with level
  1 and experience 0, whose id is the one returned. When it does not, the store is
  unchanged.
\<close>

theorem try_assemble_spec:
  assumes "parts_unique (parts s)"
  shows "length PART_TYPES = 4 \<and> distinct PART_TYPES
    \<and> (snd (try_assemble s u t r k) \<noteq> None
         \<longleftrightarrow> (\<forall>pt \<in> set PART_TYPES. 1 \<le> stock (parts s) u t pt r))
    \<and> ((\<forall>pt \<in> set PART_TYPES. 1 \<le> stock (parts s) u t pt r) \<longrightarrow>
          (\<forall>u' t' pt' r'.
              stock (parts (fst (try_assemble s u t r k))) u' t' pt' r'
              = stock (parts s) u' t' pt' r'
                - (if u' = u \<and> t' = t \<and> r' = r \<and> pt' \<in> set PART_TYPES then 1 else 0))
          \<and> (\<exists>b. bees (fst (try_assemble s u t r k)) = bees s @ [b]
                 \<and> snd (try_assemble s u t r k) = Some (b_id b)
                 \<and> b_user_id b = u \<and> b_template_id b = t \<and> b_rarity b = r
                 \<and> b_level b = 1 \<and> b_exp b = 0))
    \<and> (\<not> (\<forall>pt \<in> set PART_TYPES. 1 \<le> stock (parts s) u t pt r) \<longrightarrow>
          fst (try_assemble s u t r k) = s)"
proof (cases "\<forall>pt \<in> set PART_TYPES. 1 \<le> stock (parts s) u t pt r")
  case True
  then have la: "list_all (\<lambda>pt. 1 \<le> stock (parts s) u t pt r) PART_TYPES"
    by (simp add: list_all_iff)
  have ex: "list_ex (part_key u t pt' r) (parts s)" if "pt' \<in> set PART_TYPES" for pt'
    using True that by (simp add: stock_pos_ex)
  have st: "stock (parts (fst (try_assemble s u t r k))) u' t' pt' r'
      = stock (parts s) u' t' pt' r'
        - (if u' = u \<and> t' = t \<and> r' = r \<and> pt' \<in> set PART_TYPES then 1 else 0)"
    for u' t' pt' r'
    using ex [of pt'] by (simp add: try_assemble_cond [OF assms] la stock_fold_consume)
  have shape: "length PART_TYPES = 4 \<and> distinct PART_TYPES"
    by (simp add: PART_TYPES_def)
  show ?thesis
    using True shape st by (simp add: try_assemble_cond [OF assms] la)
next
  case False
  then have la: "\<not> list_all (\<lambda>pt. 1 \<le> stock (parts s) u t pt r) PART_TYPES"
    by (simp add: list_all_iff)
  have shape: "length PART_TYPES = 4 \<and> distinct PART_TYPES"
    by (simp add: PART_TYPES_def)
  show ?thesis
    using False shape by (simp add: try_assemble_cond [OF assms] la)
qed


theorem try_assemble_spec_witness:
  "parts_unique (parts demo_store)
   \<and> snd (try_assemble demo_store 7 1 ''Obychnaya'' 0) \<noteq> None
   \<and> stock (parts demo_store) 7 1 ''krylya'' ''Obychnaya'' = 1
   \<and> stock (parts (fst (try_assemble demo_store 7 1 ''Obychnaya'' 0))) 7 1 ''krylya'' ''Obychnaya'' = 0
   \<and> length (bees (fst (try_assemble demo_store 7 1 ''Obychnaya'' 0))) = 1"
proof -
  note T = try_assemble_spec [OF demo_unique, of 7 1 "''Obychnaya''" 0]
  have s1: "stock (parts demo_store) 7 1 ''krylya'' ''Obychnaya'' = 1"
    by (simp add: demo_store_def demo_parts_def stock_def part_key_def)
  have k: "''krylya'' \<in> set PART_TYPES"
    by (simp add: PART_TYPES_def)
  from T demo_stock_common have ok: "snd (try_assemble demo_store 7 1 ''Obychnaya'' 0) \<noteq> None"
    by blast
  from T demo_stock_common
  have "stock (parts (fst (try_assemble demo_store 7 1 ''Obychnaya'' 0))) 7 1 ''krylya'' ''Obychnaya''
      = stock (parts demo_store) 7 1 ''krylya'' ''Obychnaya''
        - (if (7::int) = 7 \<and> (1::int) = 1 \<and> ''Obychnaya'' = ''Obychnaya''
              \<and> ''krylya'' \<in> set PART_TYPES then 1 else 0)"
    by blast
  with s1 k
  have s2: "stock (parts (fst (try_assemble demo_store 7 1 ''Obychnaya'' 0))) 7 1 ''krylya'' ''Obychnaya'' = 0"
    by simp
  from T demo_stock_common
  obtain b where "bees (fst (try_assemble demo_store 7 1 ''Obychnaya'' 0)) = bees demo_store @ [b]"
    by blast
  then have s3: "length (bees (fst (try_assemble demo_store 7 1 ''Obychnaya'' 0))) = 1"
    by (simp add: demo_store_def)
  from demo_unique ok s1 s2 s3 show ?thesis by blast
qed

subsection \<open>Assembly on demand\<close>

lemma rar_order_values:
  "get_or rar_order ''Obychnaya'' 999 = 0" "get_or rar_order ''Dikaya'' 999 = 5"
  by (simp_all add: rar_order_def dict_of_def RARITIES_def get_or_def)

lemma demo_rarities:
  "remdups (map p_rarity (filter (\<lambda>p. p_user_id p = 7 \<and> p_template_id p = 1 \<and> p_amount p > 0)
      (parts demo_store))) = [''Obychnaya'', ''Dikaya'']"
  by (simp add: demo_store_def demo_parts_def)

lemma demo_try_common:
  "try_assemble demo_store 7 1 ''Obychnaya'' 0 =
     (demo_store\<lparr>parts := fold (consume_one 7 1 ''Obychnaya'') PART_TYPES (parts demo_store),
        bees := [\<lparr>b_id = 1, b_user_id = 7, b_template_id = 1, b_rarity = ''Obychnaya'',
                  b_role = ''Tank'', b_level = 1, b_exp = 0\<rparr>],
        bees_seq := Suc 0\<rparr>, Some 1)"
proof -
  have la: "list_all (\<lambda>pt. 1 \<le> stock (parts demo_store) 7 1 pt ''Obychnaya'') PART_TYPES"
    using demo_stock_common by (simp add: list_all_iff)
  have rest: "bees demo_store = []" "bees_seq demo_store = 0"
    "find (\<lambda>x. t_id x = 1) (bee_templates demo_store)
       = Some \<lparr>t_id = 1, t_name = ''Strazh-Oby-1'', t_rarity = ''Obychnaya'', t_role = ''Tank'',
          t_description = ''Tank'', t_base_value = 50\<rparr>"
    by (simp_all add: demo_store_def)
  show ?thesis
    by (simp add: try_assemble_cond [OF demo_unique] la rest)
qed

text \<open>
  Claim C2, evaluated where the code departs from it. User 7 holds a full set of
  template 1 both in the rarest rarity (\<^verbatim>\<open>Dikaya\<close>) and in the most common one
  (\<^verbatim>\<open>Obychnaya\<close>). The \<^verbatim>\<open>/assemble\<close> branch sorts the rarities by their index in
  \<^verbatim>\<open>RARITIES\<close>, which lists the most common rarity first, so the first attempt and the
  bee are of the most common rarity and the rarest set is left untouched.
\<close>

theorem assemble_takes_most_common_first:
  "stock (parts demo_store) 7 1 ''krylya'' ''Dikaya'' = 1
   \<and> stock (parts demo_store) 7 1 ''teltse'' ''Dikaya'' = 1
   \<and> stock (parts demo_store) 7 1 ''zhalo'' ''Dikaya'' = 1
   \<and> stock (parts demo_store) 7 1 ''golova'' ''Dikaya'' = 1
   \<and> snd (cmd_assemble demo_store 7 1 0) = Assembled 1
   \<and> map b_rarity (bees (fst (cmd_assemble demo_store 7 1 0))) = [''Obychnaya'']
   \<and> stock (parts (fst (cmd_assemble demo_store 7 1 0))) 7 1 ''krylya'' ''Dikaya'' = 1
   \<and> stock (parts (fst (cmd_assemble demo_store 7 1 0))) 7 1 ''krylya'' ''Obychnaya'' = 0"
proof -
  have run: "cmd_assemble demo_store 7 1 0 =
     (demo_store\<lparr>parts := fold (consume_one 7 1 ''Obychnaya'') PART_TYPES (parts demo_store),
        bees := [\<lparr>b_id = 1, b_user_id = 7, b_template_id = 1, b_rarity = ''Obychnaya'',
                  b_role = ''Tank'', b_level = 1, b_exp = 0\<rparr>],
        bees_seq := Suc 0\<rparr>, Assembled 1)"
    by (simp add: cmd_assemble_def demo_rarities rar_order_values demo_try_common truthy_id_def)
  have before: "stock (parts demo_store) 7 1 ''krylya'' ''Dikaya'' = 1"
    "stock (parts demo_store) 7 1 ''teltse'' ''Dikaya'' = 1"
    "stock (parts demo_store) 7 1 ''zhalo'' ''Dikaya'' = 1"
    "stock (parts demo_store) 7 1 ''golova'' ''Dikaya'' = 1"
    "stock (parts demo_store) 7 1 ''krylya'' ''Obychnaya'' = 1"
    by (simp_all add: demo_store_def demo_parts_def stock_def part_key_def)
  have ex: "list_ex (part_key 7 1 ''krylya'' ''Obychnaya'') (parts demo_store)"
    by (simp add: demo_store_def demo_parts_def part_key_def)
  have k: "''krylya'' \<in> set PART_TYPES"
    by (simp add: PART_TYPES_def)
  show ?thesis
    using before ex k by (simp add: run stock_fold_consume)
qed

section \<open>The daily draw\<close>

lemma try_assemble_frame:
  "users (fst (try_assemble s u t r k)) = users s"
  "spins_log (fst (try_assemble s u t r k)) = spins_log s"
  "bee_templates (fst (try_assemble s u t r k)) = bee_templates s"
  "market_listings (fst (try_assemble s u t r k)) = market_listings s"
  by (simp_all add: try_assemble_def Let_def)

lemma give_parts_frame:
  "users (give_parts_to_user s u t pt r a) = users s"
  "bee_templates (give_parts_to_user s u t pt r a) = bee_templates s"
  "bees (give_parts_to_user s u t pt r a) = bees s"
  "market_listings (give_parts_to_user s u t pt r a) = market_listings s"
  "spins_log (give_parts_to_user s u t pt r a)
     = spins_log s @ [\<lparr>sp_user_id = u, sp_template_id = t, sp_part_type = pt,
          sp_rarity = r, sp_amount = a\<rparr>]"
  by (simp_all add: give_parts_to_user_def Let_def)

lemma ensure_user_existing:
  assumes "users s (tg_id user) = Some row"
  shows "ensure_user s user
     = s\<lparr>users := (users s)(tg_id user \<mapsto> row\<lparr>username :=
           (if truthy_str (tg_username user) then tg_username user else None)\<rparr>)\<rparr>"
  using assms by (simp add: ensure_user_def Let_def)

lemma proceed_to_spin_result:
  assumes "bee_templates s \<noteq> []" and "users s uid = Some row"
  shows "\<exists>bee. snd (proceed_to_spin s uid now r)
        = SpinResult (bee_templates s ! rnd_template r) (choice PART_TYPES (rnd_part r))
            (draw_amount (rnd_roll r) (rnd_qty r)) bee"
    and "users (fst (proceed_to_spin s uid now r)) = (users s)(uid \<mapsto> row\<lparr>last_spin := Some now\<rparr>)"
    and "spins_log (fst (proceed_to_spin s uid now r)) = spins_log s @
          [\<lparr>sp_user_id = uid, sp_template_id = t_id (bee_templates s ! rnd_template r),
            sp_part_type = choice PART_TYPES (rnd_part r),
            sp_rarity = t_rarity (bee_templates s ! rnd_template r),
            sp_amount = draw_amount (rnd_roll r) (rnd_qty r)\<rparr>]"
  using assms
  by (simp_all add: proceed_to_spin_def pick_random_template_def Let_def split_beta
      try_assemble_frame set_last_spin_def give_parts_frame)


text \<open>
  Claim C3. For every user whose last draw was strictly less than 24 hours before
  \<open>now\<close>, \<^verbatim>\<open>cmd_daily_spin\<close> answers with the cooldown message carrying the remaining
  time, and leaves the part stock, the draw log, the bees and every user's last-draw
  timestamp and coins unchanged. At 24 hours or more the answer is never the cooldown
  message; with a non-empty catalog it is the result of the draw, the user's last-draw
  timestamp becomes \<open>now\<close> and the draw is appended to the log.
\<close>

theorem daily_spin_cooldown:
  assumes "users s (tg_id user) = Some row" and "last_spin row = Some last_at"
  shows "(now - last_at < day \<longrightarrow>
            snd (cmd_daily_spin s user now r) = CooldownActive (day - (now - last_at))
          \<and> parts (fst (cmd_daily_spin s user now r)) = parts s
          \<and> spins_log (fst (cmd_daily_spin s user now r)) = spins_log s
          \<and> bees (fst (cmd_daily_spin s user now r)) = bees s
          \<and> (\<forall>u. map_option last_spin (users (fst (cmd_daily_spin s user now r)) u)
                  = map_option last_spin (users s u))
          \<and> (\<forall>u. map_option coins (users (fst (cmd_daily_spin s user now r)) u)
                  = map_option coins (users s u)))
    \<and> (day \<le> now - last_at \<longrightarrow>
          (\<forall>remaining. snd (cmd_daily_spin s user now r) \<noteq> CooldownActive remaining)
          \<and> (bee_templates s \<noteq> [] \<longrightarrow>
               (\<exists>bee. snd (cmd_daily_spin s user now r)
                   = SpinResult (bee_templates s ! rnd_template r)
                       (choice PART_TYPES (rnd_part r))
                       (draw_amount (rnd_roll r) (rnd_qty r)) bee)
               \<and> map_option last_spin (users (fst (cmd_daily_spin s user now r)) (tg_id user))
                   = Some (Some now)
               \<and> spins_log (fst (cmd_daily_spin s user now r)) = spins_log s @
                   [\<lparr>sp_user_id = tg_id user,
                     sp_template_id = t_id (bee_templates s ! rnd_template r),
                     sp_part_type = choice PART_TYPES (rnd_part r),
                     sp_rarity = t_rarity (bee_templates s ! rnd_template r),
                     sp_amount = draw_amount (rnd_roll r) (rnd_qty r)\<rparr>]))"
proof -
  let ?row = "row\<lparr>username := (if truthy_str (tg_username user) then tg_username user else None)\<rparr>"
  let ?s = "s\<lparr>users := (users s)(tg_id user \<mapsto> ?row)\<rparr>"
  have e: "ensure_user s user = ?s"
    using assms(1) by (rule ensure_user_existing)
  have u: "users ?s (tg_id user) = Some ?row" by simp
  have l: "last_spin ?row = Some last_at" using assms(2) by simp
  have run: "cmd_daily_spin s user now r =
      (if now - last_at < day then (?s, CooldownActive (day - (now - last_at)))
       else proceed_to_spin ?s (tg_id user) now r)"
    unfolding cmd_daily_spin_def e Let_def by (simp add: l)
  show ?thesis
  proof (cases "now - last_at < day")
    case True
    then show ?thesis using assms by (simp add: run)
  next
    case False
    have nocd: "snd (proceed_to_spin ?s (tg_id user) now r) \<noteq> CooldownActive remaining"
      for remaining
      by (simp add: proceed_to_spin_def Let_def split_beta split: option.splits)
    have tm: "bee_templates ?s = bee_templates s" "spins_log ?s = spins_log s" by simp_all
    show ?thesis
    proof (cases "bee_templates s = []")
      case True
      with False nocd show ?thesis by (simp add: run)
    next
      case nonempty: False
      then have ne: "bee_templates ?s \<noteq> []" by simp
      note P = proceed_to_spin_result [OF ne u, of now r]
      from P(1) obtain bee where b: "snd (proceed_to_spin ?s (tg_id user) now r)
        = SpinResult (bee_templates s ! rnd_template r) (choice PART_TYPES (rnd_part r))
            (draw_amount (rnd_roll r) (rnd_qty r)) bee"
        unfolding tm by blast
      from False nocd b P(2) P(3) show ?thesis
        by (simp add: run)
    qed
  qed
qed


theorem daily_spin_cooldown_witness:
  "snd (cmd_daily_spin demo_store demo_user (day - 1) demo_rnd) = CooldownActive 1
   \<and> parts (fst (cmd_daily_spin demo_store demo_user (day - 1) demo_rnd)) = parts demo_store
   \<and> map_option last_spin (users (fst (cmd_daily_spin demo_store demo_user (day - 1) demo_rnd)) 7)
       = Some (Some 0)
   \<and> (\<forall>remaining. snd (cmd_daily_spin demo_store demo_user day demo_rnd)
          \<noteq> CooldownActive remaining)
   \<and> map_option last_spin (users (fst (cmd_daily_spin demo_store demo_user day demo_rnd)) 7)
       = Some (Some day)
   \<and> length (spins_log (fst (cmd_daily_spin demo_store demo_user day demo_rnd))) = 1"
proof -
  have hu: "users demo_store (tg_id demo_user)
      = Some \<lparr>username = Some ''alice'', nickname = Some ''Alice'', coins = 0, last_spin = Some 0\<rparr>"
    by (simp add: demo_store_def demo_user_def)
  have hl: "last_spin \<lparr>username = Some ''alice'', nickname = Some ''Alice'', coins = 0,
      last_spin = Some 0\<rparr> = Some 0"
    by simp
  have early: "day - 1 - 0 < day" and late: "day \<le> day - 0"
    by simp_all
  have cat: "bee_templates demo_store \<noteq> []"
    by (simp add: demo_store_def)
  have u7: "users demo_store 7
      = Some \<lparr>username = Some ''alice'', nickname = Some ''Alice'', coins = 0, last_spin = Some 0\<rparr>"
    "tg_id demo_user = 7" "spins_log demo_store = []"
    by (simp_all add: demo_store_def demo_user_def)
  from daily_spin_cooldown [OF hu hl, of "day - 1" demo_rnd] early
  have a: "snd (cmd_daily_spin demo_store demo_user (day - 1) demo_rnd)
        = CooldownActive (day - (day - 1 - 0))
      \<and> parts (fst (cmd_daily_spin demo_store demo_user (day - 1) demo_rnd)) = parts demo_store
      \<and> map_option last_spin (users (fst (cmd_daily_spin demo_store demo_user (day - 1) demo_rnd)) 7)
          = map_option last_spin (users demo_store 7)"
    by blast
  from daily_spin_cooldown [OF hu hl, of day demo_rnd] late cat
  have b: "(\<forall>remaining. snd (cmd_daily_spin demo_store demo_user day demo_rnd)
          \<noteq> CooldownActive remaining)
      \<and> map_option last_spin (users (fst (cmd_daily_spin demo_store demo_user day demo_rnd))
            (tg_id demo_user)) = Some (Some day)
      \<and> (\<exists>e. spins_log (fst (cmd_daily_spin demo_store demo_user day demo_rnd))
            = spins_log demo_store @ [e])"
    by blast
  from a b show ?thesis
    by (auto simp: u7)
qed

section \<open>Selling parts\<close>

lemma top_by_amount_Nil: "top_by_amount [] tie = None"
  by (simp add: top_by_amount_def)

lemma top_by_amount_Some:
  assumes "rows \<noteq> []"
  shows "\<exists>row. top_by_amount rows tie = Some row \<and> row \<in> set rows
           \<and> (\<forall>p \<in> set rows. p_amount p \<le> p_amount row)"
proof -
  let ?m = "Max (set (map p_amount rows))"
  let ?tops = "filter (\<lambda>p. p_amount p = ?m) rows"
  have fin: "finite (set (map p_amount rows))" and ne: "set (map p_amount rows) \<noteq> {}"
    using assms by simp_all
  from Max_in [OF fin ne] have "?m \<in> p_amount ` set rows" by simp
  then have tops_ne: "?tops \<noteq> []"
    by (auto simp: filter_empty_conv)
  then have "tie mod length ?tops < length ?tops" by simp
  then have mem: "?tops ! (tie mod length ?tops) \<in> set ?tops" by (rule nth_mem)
  then have in_rows: "?tops ! (tie mod length ?tops) \<in> set rows"
    and amt: "p_amount (?tops ! (tie mod length ?tops)) = ?m"
    by simp_all
  have ge: "p_amount p \<le> ?m" if "p \<in> set rows" for p
    using that by (intro Max_ge) simp_all
  have "top_by_amount rows tie = Some (?tops ! (tie mod length ?tops))"
    using assms by (simp add: top_by_amount_def Let_def)
  with in_rows amt ge show ?thesis by auto
qed


lemma cmd_sell_part_run:
  assumes "part_type \<in> set PART_TYPES"
    and "top_by_amount (filter (part_of user_id template_id part_type) (parts s)) tie = Some row"
  shows "cmd_sell_part s user_id template_id part_type amount tie =
     (if p_amount row < amount then (s, InsufficientStock)
      else (s\<lparr>users := (case users s user_id of
                           None \<Rightarrow> users s
                         | Some u \<Rightarrow> (users s)(user_id \<mapsto> u\<lparr>coins := coins u
                               + get_or RARITY_BASE_VALUE (p_rarity row) 10 * amount\<rparr>)),
              parts := map (\<lambda>p. if part_of user_id template_id part_type p \<and> p_amount p \<ge> amount
                                 then p\<lparr>p_amount := p_amount p - amount\<rparr> else p) (parts s)\<rparr>,
            SoldParts amount part_type (p_rarity row)
              (get_or RARITY_BASE_VALUE (p_rarity row) 10 * amount)))"
  using assms by (simp add: cmd_sell_part_def Let_def)

lemma demo_top_krylya:
  "top_by_amount (filter (part_of 7 1 ''krylya'') (parts demo_store)) 0
   = Some \<lparr>p_user_id = 7, p_template_id = 1, p_part_type = ''krylya'',
            p_rarity = ''Obychnaya'', p_amount = 1\<rparr>"
  by (simp add: demo_store_def demo_parts_def part_of_def top_by_amount_def)

lemma demo_base_value: "get_or RARITY_BASE_VALUE ''Obychnaya'' 10 = 50"
  by (simp add: get_or_def RARITY_BASE_VALUE_def)

lemma demo_krylya: "''krylya'' \<in> set PART_TYPES"
  by (simp add: PART_TYPES_def)

lemma demo_user7:
  "users demo_store 7
     = Some \<lparr>username = Some ''alice'', nickname = Some ''Alice'', coins = 0, last_spin = Some 0\<rparr>"
  by (simp add: demo_store_def)

lemma demo_rows:
  "length (parts demo_store) = 8"
  "parts demo_store ! 0 = \<lparr>p_user_id = 7, p_template_id = 1, p_part_type = ''krylya'',
      p_rarity = ''Obychnaya'', p_amount = 1\<rparr>"
  "parts demo_store ! 3 = \<lparr>p_user_id = 7, p_template_id = 1, p_part_type = ''golova'',
      p_rarity = ''Obychnaya'', p_amount = 3\<rparr>"
  "parts demo_store ! 4 = \<lparr>p_user_id = 7, p_template_id = 1, p_part_type = ''krylya'',
      p_rarity = ''Dikaya'', p_amount = 1\<rparr>"
  by (simp_all add: demo_store_def demo_parts_def)

text \<open>
  Claim C9. For every part sale of a registered user with a part type of \<^verbatim>\<open>PART_TYPES\<close>:
  when the user has no row of that template and part type, the sale is refused and the
  store is unchanged; otherwise there is a row of that template and part type, of the
  greatest amount among them whatever its rarity (the caller names none), such that a
  request above this amount is refused with the store unchanged, and any other request
  is answered as sold at this row's rarity and credits the user the base value of that
  rarity (10 for a rarity outside the table) times the amount.
\<close>

theorem sell_part_highest_amount:
  assumes "part_type \<in> set PART_TYPES" and "users s user_id = Some urow"
  shows "((\<forall>p \<in> set (parts s). \<not> part_of user_id template_id part_type p) \<longrightarrow>
            cmd_sell_part s user_id template_id part_type amount tie = (s, InsufficientStock))
    \<and> ((\<exists>p \<in> set (parts s). part_of user_id template_id part_type p) \<longrightarrow>
          (\<exists>row \<in> set (parts s). part_of user_id template_id part_type row
             \<and> (\<forall>p \<in> set (parts s). part_of user_id template_id part_type p
                    \<longrightarrow> p_amount p \<le> p_amount row)
             \<and> (p_amount row < amount \<longrightarrow>
                   cmd_sell_part s user_id template_id part_type amount tie
                     = (s, InsufficientStock))
             \<and> (amount \<le> p_amount row \<longrightarrow>
                   snd (cmd_sell_part s user_id template_id part_type amount tie)
                     = SoldParts amount part_type (p_rarity row)
                         (get_or RARITY_BASE_VALUE (p_rarity row) 10 * amount)
                   \<and> map_option coins
                        (users (fst (cmd_sell_part s user_id template_id part_type amount tie))
                           user_id)
                     = Some (coins urow + get_or RARITY_BASE_VALUE (p_rarity row) 10 * amount))))"
proof (cases "filter (part_of user_id template_id part_type) (parts s) = []")
  case True
  then have none: "\<forall>p \<in> set (parts s). \<not> part_of user_id template_id part_type p"
    by (simp add: filter_empty_conv)
  have "cmd_sell_part s user_id template_id part_type amount tie = (s, InsufficientStock)"
    using assms(1) True by (simp add: cmd_sell_part_def top_by_amount_Nil)
  with none show ?thesis by blast
next
  case False
  from top_by_amount_Some [OF False, of tie]
  obtain row where top: "top_by_amount (filter (part_of user_id template_id part_type) (parts s)) tie
        = Some row"
    and mem: "row \<in> set (filter (part_of user_id template_id part_type) (parts s))"
    and mx: "\<forall>p \<in> set (filter (part_of user_id template_id part_type) (parts s)).
        p_amount p \<le> p_amount row"
    by blast
  note run = cmd_sell_part_run [OF assms(1) top, of amount]
  have some: "\<exists>p \<in> set (parts s). part_of user_id template_id part_type p"
    using mem by auto
  have r1: "row \<in> set (parts s)" and r2: "part_of user_id template_id part_type row"
    using mem by simp_all
  have r3: "\<forall>p \<in> set (parts s). part_of user_id template_id part_type p
      \<longrightarrow> p_amount p \<le> p_amount row"
    using mx by simp
  have r4: "p_amount row < amount \<longrightarrow>
      cmd_sell_part s user_id template_id part_type amount tie = (s, InsufficientStock)"
    by (simp add: run)
  have r5: "amount \<le> p_amount row \<longrightarrow>
      snd (cmd_sell_part s user_id template_id part_type amount tie)
        = SoldParts amount part_type (p_rarity row)
            (get_or RARITY_BASE_VALUE (p_rarity row) 10 * amount)
      \<and> map_option coins
           (users (fst (cmd_sell_part s user_id template_id part_type amount tie)) user_id)
        = Some (coins urow + get_or RARITY_BASE_VALUE (p_rarity row) 10 * amount)"
    using assms(2) by (simp add: run)
  from some r1 r2 r3 r4 r5 show ?thesis by blast
qed


theorem sell_part_highest_amount_witness:
  "''krylya'' \<in> set PART_TYPES
   \<and> (\<exists>row \<in> set (parts demo_store). part_of 7 1 ''krylya'' row
        \<and> snd (cmd_sell_part demo_store 7 1 ''krylya'' 1 0)
            = SoldParts 1 ''krylya'' (p_rarity row)
                (get_or RARITY_BASE_VALUE (p_rarity row) 10 * 1)
        \<and> map_option coins (users (fst (cmd_sell_part demo_store 7 1 ''krylya'' 1 0)) 7)
            = Some (0 + get_or RARITY_BASE_VALUE (p_rarity row) 10 * 1))"
proof -
  have k: "''krylya'' \<in> set PART_TYPES"
    by (simp add: PART_TYPES_def)
  have hu: "users demo_store 7
      = Some \<lparr>username = Some ''alice'', nickname = Some ''Alice'', coins = 0, last_spin = Some 0\<rparr>"
    by (simp add: demo_store_def)
  have ex: "\<exists>p \<in> set (parts demo_store). part_of 7 1 ''krylya'' p \<and> p_amount p = 1"
    by (simp add: demo_store_def demo_parts_def part_of_def)
  then have ex': "\<exists>p \<in> set (parts demo_store). part_of 7 1 ''krylya'' p"
    by blast
  from sell_part_highest_amount [OF k hu, of 1 1 0] ex'
  obtain row where row: "row \<in> set (parts demo_store)" "part_of 7 1 ''krylya'' row"
    and mx: "\<forall>p \<in> set (parts demo_store). part_of 7 1 ''krylya'' p \<longrightarrow> p_amount p \<le> p_amount row"
    and sold: "1 \<le> p_amount row \<longrightarrow>
        snd (cmd_sell_part demo_store 7 1 ''krylya'' 1 0)
          = SoldParts 1 ''krylya'' (p_rarity row) (get_or RARITY_BASE_VALUE (p_rarity row) 10 * 1)
        \<and> map_option coins (users (fst (cmd_sell_part demo_store 7 1 ''krylya'' 1 0)) 7)
          = Some (coins \<lparr>username = Some ''alice'', nickname = Some ''Alice'', coins = 0,
                last_spin = Some 0\<rparr> + get_or RARITY_BASE_VALUE (p_rarity row) 10 * 1)"
    by blast
  from ex mx have "1 \<le> p_amount row" by auto
  with sold row k show ?thesis by auto
qed

text \<open>
  Claim C10. When a part sale of \<open>amount\<close> units is answered as sold, every row of the
  user, the template and the part type whose amount is at least \<open>amount\<close> is decremented
  by \<open>amount\<close>, whatever its rarity; every other row keeps its amount, every row keeps
  its key, and no row is added or removed. The user's coins grow once, by the base value
  of the answered rarity times \<open>amount\<close>; every other user is unchanged.
\<close>

theorem sell_part_every_rarity_row:
  assumes "snd (cmd_sell_part s user_id template_id part_type amount tie)
      = SoldParts amount' part_type' rarity credit"
    and "users s user_id = Some urow"
  shows "amount' = amount \<and> part_type' = part_type
    \<and> credit = get_or RARITY_BASE_VALUE rarity 10 * amount
    \<and> length (parts (fst (cmd_sell_part s user_id template_id part_type amount tie)))
        = length (parts s)
    \<and> (\<forall>i < length (parts s).
          p_user_id (parts (fst (cmd_sell_part s user_id template_id part_type amount tie)) ! i)
            = p_user_id (parts s ! i)
        \<and> p_template_id (parts (fst (cmd_sell_part s user_id template_id part_type amount tie)) ! i)
            = p_template_id (parts s ! i)
        \<and> p_part_type (parts (fst (cmd_sell_part s user_id template_id part_type amount tie)) ! i)
            = p_part_type (parts s ! i)
        \<and> p_rarity (parts (fst (cmd_sell_part s user_id template_id part_type amount tie)) ! i)
            = p_rarity (parts s ! i)
        \<and> p_amount (parts (fst (cmd_sell_part s user_id template_id part_type amount tie)) ! i)
            = (if part_of user_id template_id part_type (parts s ! i)
                  \<and> amount \<le> p_amount (parts s ! i)
               then p_amount (parts s ! i) - amount else p_amount (parts s ! i)))
    \<and> map_option coins
         (users (fst (cmd_sell_part s user_id template_id part_type amount tie)) user_id)
        = Some (coins urow + credit)
    \<and> (\<forall>u. u \<noteq> user_id \<longrightarrow>
          users (fst (cmd_sell_part s user_id template_id part_type amount tie)) u = users s u)"
proof -
  from assms(1) have pt: "part_type \<in> set PART_TYPES"
    by (auto simp: cmd_sell_part_def split: if_splits)
  from assms(1) pt obtain row
    where top: "top_by_amount (filter (part_of user_id template_id part_type) (parts s)) tie
        = Some row"
    by (cases "top_by_amount (filter (part_of user_id template_id part_type) (parts s)) tie")
      (auto simp: cmd_sell_part_def)
  note run = cmd_sell_part_run [OF pt top, of amount]
  from assms(1) have enough: "\<not> p_amount row < amount"
    by (auto simp: run split: if_splits)
  from assms(1) enough have vals: "amount' = amount" "part_type' = part_type"
    "rarity = p_rarity row" "credit = get_or RARITY_BASE_VALUE (p_rarity row) 10 * amount"
    by (auto simp: run)
  show ?thesis
    using enough assms(2) by (simp add: run vals part_of_def)
qed


theorem sell_part_every_rarity_row_witness:
  "snd (cmd_sell_part demo_store 7 1 ''krylya'' 1 0) = SoldParts 1 ''krylya'' ''Obychnaya'' 50
   \<and> p_rarity (parts demo_store ! 0) = ''Obychnaya'' \<and> p_amount (parts demo_store ! 0) = 1
   \<and> p_rarity (parts demo_store ! 4) = ''Dikaya'' \<and> p_amount (parts demo_store ! 4) = 1
   \<and> p_amount (parts (fst (cmd_sell_part demo_store 7 1 ''krylya'' 1 0)) ! 0) = 0
   \<and> p_amount (parts (fst (cmd_sell_part demo_store 7 1 ''krylya'' 1 0)) ! 4) = 0
   \<and> p_amount (parts (fst (cmd_sell_part demo_store 7 1 ''krylya'' 1 0)) ! 3) = 3
   \<and> map_option coins (users (fst (cmd_sell_part demo_store 7 1 ''krylya'' 1 0)) 7) = Some 50"
proof -
  have sold: "snd (cmd_sell_part demo_store 7 1 ''krylya'' 1 0)
      = SoldParts 1 ''krylya'' ''Obychnaya'' 50"
    by (simp add: cmd_sell_part_run [OF demo_krylya demo_top_krylya] demo_base_value)
  note T = sell_part_every_rarity_row [OF sold demo_user7]
  have i0: "(0::nat) < length (parts demo_store)" and i1: "(3::nat) < length (parts demo_store)"
    and i4: "(4::nat) < length (parts demo_store)"
    by (simp_all add: demo_rows)
  from T i0 have a0: "p_amount (parts (fst (cmd_sell_part demo_store 7 1 ''krylya'' 1 0)) ! 0)
      = (if part_of 7 1 ''krylya'' (parts demo_store ! 0) \<and> 1 \<le> p_amount (parts demo_store ! 0)
         then p_amount (parts demo_store ! 0) - 1 else p_amount (parts demo_store ! 0))"
    by blast
  from T i1 have a1: "p_amount (parts (fst (cmd_sell_part demo_store 7 1 ''krylya'' 1 0)) ! 3)
      = (if part_of 7 1 ''krylya'' (parts demo_store ! 3) \<and> 1 \<le> p_amount (parts demo_store ! 3)
         then p_amount (parts demo_store ! 3) - 1 else p_amount (parts demo_store ! 3))"
    by blast
  from T i4 have a4: "p_amount (parts (fst (cmd_sell_part demo_store 7 1 ''krylya'' 1 0)) ! 4)
      = (if part_of 7 1 ''krylya'' (parts demo_store ! 4) \<and> 1 \<le> p_amount (parts demo_store ! 4)
         then p_amount (parts demo_store ! 4) - 1 else p_amount (parts demo_store ! 4))"
    by blast
  from T have c: "map_option coins (users (fst (cmd_sell_part demo_store 7 1 ''krylya'' 1 0)) 7)
      = Some (coins \<lparr>username = Some ''alice'', nickname = Some ''Alice'', coins = 0,
            last_spin = Some 0\<rparr> + 50)"
    by blast
  from sold a0 a1 a4 c show ?thesis
    by (simp add: demo_rows part_of_def)
qed

text \<open>
  Claim C4, evaluated where the code departs from it. In \<open>demo_store\<close> every balance and
  every amount is non-negative. User 7, with no coins, sends \<^verbatim>\<open>/sell_part 1 krylya -1\<close>:
  the check \<^verbatim>\<open>row['amount'] < amount\<close> lets a negative amount through, the total is
  negative, and the balance of user 7 becomes \<open>-50\<close>.
\<close>

theorem sell_part_negative_amount_debits:
  "map_option coins (users demo_store 7) = Some 0
   \<and> map_option coins (users demo_store 8) = Some 50
   \<and> list_all (\<lambda>p. 0 \<le> p_amount p) (parts demo_store)
   \<and> snd (cmd_sell_part demo_store 7 1 ''krylya'' (- 1) 0)
       = SoldParts (- 1) ''krylya'' ''Obychnaya'' (- 50)
   \<and> map_option coins (users (fst (cmd_sell_part demo_store 7 1 ''krylya'' (- 1) 0)) 7)
       = Some (- 50)"
proof -
  have before: "map_option coins (users demo_store 7) = Some 0"
    "map_option coins (users demo_store 8) = Some 50"
    "list_all (\<lambda>p. 0 \<le> p_amount p) (parts demo_store)"
    by (simp_all add: demo_store_def demo_parts_def)
  have after: "snd (cmd_sell_part demo_store 7 1 ''krylya'' (- 1) 0)
       = SoldParts (- 1) ''krylya'' ''Obychnaya'' (- 50)"
    "map_option coins (users (fst (cmd_sell_part demo_store 7 1 ''krylya'' (- 1) 0)) 7)
       = Some (- 50)"
    by (simp_all add: cmd_sell_part_run [OF demo_krylya demo_top_krylya] demo_base_value
        demo_user7)
  from before after show ?thesis by blast
qed

section \<open>The market\<close>

subsection \<open>Listing a bee\<close>

lemma demo_market_facts:
  "market_listings demo_market = []" "market_listings_seq demo_market = 0"
  "find (\<lambda>b. b_id b = 1 \<and> b_user_id b = 7) (bees demo_market)
     = Some \<lparr>b_id = 1, b_user_id = 7, b_template_id = 1, b_rarity = ''Obychnaya'',
                 b_role = ''Tank'', b_level = 1, b_exp = 0\<rparr>"
  by (simp_all add: demo_market_def demo_store_def)

lemma demo_market_owner:
  "\<exists>b \<in> set (bees demo_market). b_id b = 1 \<and> b_user_id b = 7"
  by (simp add: demo_market_def)

lemma find_owner:
  "(find (\<lambda>b. b_id b = bee_id \<and> b_user_id b = user_id) (bees s) = None)
   = (\<not> (\<exists>b \<in> set (bees s). b_id b = bee_id \<and> b_user_id b = user_id))"
  by (auto simp: find_None_iff)

text \<open>
  Claim C5 as stated fails on the code: the \<^verbatim>\<open>/sell_bee\<close> branch never looks at the
  price. The owner of bee 1 lists it for \<open>-5\<close> coins, and for 0 coins, and each time the
  listing is created.
\<close>

theorem sell_bee_nonpositive_price_counterexample:
  "market_listings demo_market = []
   \<and> snd (cmd_sell_bee demo_market 7 1 (- 5)) = Listed 1 (- 5)
   \<and> market_listings (fst (cmd_sell_bee demo_market 7 1 (- 5)))
       = [\<lparr>l_id = 1, l_seller_id = 7, l_bee_id = 1, l_price = - 5\<rparr>]
   \<and> snd (cmd_sell_bee demo_market 7 1 0) = Listed 1 0
   \<and> market_listings (fst (cmd_sell_bee demo_market 7 1 0))
       = [\<lparr>l_id = 1, l_seller_id = 7, l_bee_id = 1, l_price = 0\<rparr>]"
  by (simp add: cmd_sell_bee_def demo_market_facts)

text \<open>
  Claim C5, amended. For every listing call by the owner of the bee, whatever the price
  (also zero or negative), the \<^verbatim>\<open>/sell_bee\<close> branch answers that the bee is listed and
  appends one listing of the bee at that price; the call is refused, with the store
  unchanged, only when the caller does not own a bee of that id.
\<close>

theorem sell_bee_any_price:
  "((\<exists>b \<in> set (bees s). b_id b = bee_id \<and> b_user_id b = user_id) \<longrightarrow>
       snd (cmd_sell_bee s user_id bee_id price) = Listed bee_id price
     \<and> market_listings (fst (cmd_sell_bee s user_id bee_id price))
         = market_listings s @ [\<lparr>l_id = int (market_listings_seq s) + 1,
              l_seller_id = user_id, l_bee_id = bee_id, l_price = price\<rparr>])
   \<and> (\<not> (\<exists>b \<in> set (bees s). b_id b = bee_id \<and> b_user_id b = user_id) \<longrightarrow>
       cmd_sell_bee s user_id bee_id price = (s, NotOwner))"
  using find_owner [of bee_id user_id s]
  by (cases "find (\<lambda>b. b_id b = bee_id \<and> b_user_id b = user_id) (bees s)")
     (simp_all add: cmd_sell_bee_def)

theorem sell_bee_any_price_witness:
  "snd (cmd_sell_bee demo_market 7 1 (- 5)) = Listed 1 (- 5)
   \<and> map l_price (market_listings (fst (cmd_sell_bee demo_market 7 1 (- 5)))) = [- 5]
   \<and> cmd_sell_bee demo_market 8 1 100 = (demo_market, NotOwner)"
proof -
  have no8: "\<not> (\<exists>b \<in> set (bees demo_market). b_id b = 1 \<and> b_user_id b = 8)"
    by (simp add: demo_market_def)
  from sell_bee_any_price [of demo_market 1 7 "- 5"] demo_market_owner
  have a: "snd (cmd_sell_bee demo_market 7 1 (- 5)) = Listed 1 (- 5)
     \<and> market_listings (fst (cmd_sell_bee demo_market 7 1 (- 5)))
         = market_listings demo_market @ [\<lparr>l_id = int (market_listings_seq demo_market) + 1,
              l_seller_id = 7, l_bee_id = 1, l_price = - 5\<rparr>]"
    by blast
  from sell_bee_any_price [of demo_market 1 8 100] no8
  have b: "cmd_sell_bee demo_market 8 1 100 = (demo_market, NotOwner)"
    by blast
  from a b show ?thesis by (simp add: demo_market_facts)
qed

text \<open>
  Claim C6 as stated fails on the code: the \<^verbatim>\<open>/sell_bee\<close> branch never reads
  \<^verbatim>\<open>market_listings\<close>. The owner lists bee 1 twice, and the table holds two listings
  of the bee.
\<close>

theorem sell_bee_twice_counterexample:
  "snd (cmd_sell_bee demo_market 7 1 100) = Listed 1 100
   \<and> snd (cmd_sell_bee (fst (cmd_sell_bee demo_market 7 1 100)) 7 1 200) = Listed 1 200
   \<and> market_listings (fst (cmd_sell_bee (fst (cmd_sell_bee demo_market 7 1 100)) 7 1 200))
       = [\<lparr>l_id = 1, l_seller_id = 7, l_bee_id = 1, l_price = 100\<rparr>,
          \<lparr>l_id = 2, l_seller_id = 7, l_bee_id = 1, l_price = 200\<rparr>]"
  by (simp add: cmd_sell_bee_def demo_market_facts)

text \<open>
  Claim C6, amended. Listing a bee the caller owns succeeds whether or not the bee
  already has listings: the answer is that the bee is listed, the number of listings of
  the bee grows by one, the listings that were there stay, and the bees are unchanged
  (so the call can be repeated).
\<close>

theorem sell_bee_listed_again:
  assumes "\<exists>b \<in> set (bees s). b_id b = bee_id \<and> b_user_id b = user_id"
  shows "snd (cmd_sell_bee s user_id bee_id price) = Listed bee_id price
    \<and> length (filter (\<lambda>l. l_bee_id l = bee_id)
         (market_listings (fst (cmd_sell_bee s user_id bee_id price))))
       = length (filter (\<lambda>l. l_bee_id l = bee_id) (market_listings s)) + 1
    \<and> take (length (market_listings s)) (market_listings (fst (cmd_sell_bee s user_id bee_id price)))
       = market_listings s
    \<and> bees (fst (cmd_sell_bee s user_id bee_id price)) = bees s"
  using assms find_owner [of bee_id user_id s]
  by (cases "find (\<lambda>b. b_id b = bee_id \<and> b_user_id b = user_id) (bees s)")
     (simp_all add: cmd_sell_bee_def)

theorem sell_bee_listed_again_witness:
  "length (filter (\<lambda>l. l_bee_id l = 1) (market_listings (fst (cmd_sell_bee demo_market 7 1 100)))) = 1
   \<and> snd (cmd_sell_bee (fst (cmd_sell_bee demo_market 7 1 100)) 7 1 200) = Listed 1 200
   \<and> length (filter (\<lambda>l. l_bee_id l = 1)
        (market_listings (fst (cmd_sell_bee (fst (cmd_sell_bee demo_market 7 1 100)) 7 1 200)))) = 2"
proof -
  have own1: "\<exists>b \<in> set (bees (fst (cmd_sell_bee demo_market 7 1 100))). b_id b = 1 \<and> b_user_id b = 7"
    using sell_bee_listed_again [OF demo_market_owner, of 100] demo_market_owner by simp
  have first: "length (filter (\<lambda>l. l_bee_id l = 1)
      (market_listings (fst (cmd_sell_bee demo_market 7 1 100)))) = 1"
    using sell_bee_listed_again [OF demo_market_owner, of 100] by (simp add: demo_market_facts)
  from sell_bee_listed_again [OF own1, of 200] first show ?thesis by simp
qed

subsection \<open>Buying a listed bee\<close>

text \<open>
  Claim C7. For every buyer whose balance is less than the price of an existing
  listing, \<open>buy\<close> answers \<^verbatim>\<open>InsufficientFunds\<close> and returns the store it was given:
  the listing is still there, the bees (so the ownership of the creature) are
  unchanged, and no balance has moved.
\<close>

theorem buy_insufficient_funds:
  assumes "find (\<lambda>l. l_id l = listing_id) (market_listings s) = Some listing"
    and "users s buyer_id = Some b"
    and "coins b < l_price listing"
  shows "snd (buy s buyer_id listing_id) = InsufficientFunds
    \<and> fst (buy s buyer_id listing_id) = s
    \<and> find (\<lambda>l. l_id l = listing_id) (market_listings (fst (buy s buyer_id listing_id)))
        = Some listing
    \<and> bees (fst (buy s buyer_id listing_id)) = bees s
    \<and> users (fst (buy s buyer_id listing_id)) = users s"
  using assms by (simp add: buy_def debit_def)

text \<open>The scenario of the spec: user 7 has listed bee 1 for 100 coins and user 8, with 50
  coins, is refused. With 50 coins more the same purchase goes through in the model: the
  coins, the bee and the listing all move.\<close>

theorem buy_insufficient_funds_witness:
  "snd (buy demo_listed 8 1) = InsufficientFunds
   \<and> market_listings (fst (buy demo_listed 8 1))
       = [\<lparr>l_id = 1, l_seller_id = 7, l_bee_id = 1, l_price = 100\<rparr>]
   \<and> map b_user_id (bees (fst (buy demo_listed 8 1))) = [7]
   \<and> map_option coins (users (fst (buy demo_listed 8 1)) 8) = Some 50
   \<and> map_option coins (users (fst (buy demo_listed 8 1)) 7) = Some 0
   \<and> snd (buy (add_coins demo_listed 8 50) 8 1) = Bought 1
   \<and> map b_user_id (bees (fst (buy (add_coins demo_listed 8 50) 8 1))) = [8]
   \<and> market_listings (fst (buy (add_coins demo_listed 8 50) 8 1)) = []
   \<and> map_option coins (users (fst (buy (add_coins demo_listed 8 50) 8 1)) 8) = Some 0
   \<and> map_option coins (users (fst (buy (add_coins demo_listed 8 50) 8 1)) 7) = Some 100"
proof -
  have l: "find (\<lambda>l. l_id l = 1) (market_listings demo_listed)
      = Some \<lparr>l_id = 1, l_seller_id = 7, l_bee_id = 1, l_price = 100\<rparr>"
    by (simp add: demo_listed_def)
  have u: "users demo_listed 8
      = Some \<lparr>username = None, nickname = Some ''Bob'', coins = 50, last_spin = None\<rparr>"
    by (simp add: demo_listed_def demo_market_def demo_store_def)
  have c: "coins \<lparr>username = None, nickname = Some ''Bob'', coins = 50, last_spin = None\<rparr>
      < l_price \<lparr>l_id = 1, l_seller_id = 7, l_bee_id = 1, l_price = 100\<rparr>"
    by simp
  from buy_insufficient_funds [OF l u c]
  have refused: "snd (buy demo_listed 8 1) = InsufficientFunds"
    "fst (buy demo_listed 8 1) = demo_listed"
    by simp_all
  have paid: "snd (buy (add_coins demo_listed 8 50) 8 1) = Bought 1
     \<and> map b_user_id (bees (fst (buy (add_coins demo_listed 8 50) 8 1))) = [8]
     \<and> market_listings (fst (buy (add_coins demo_listed 8 50) 8 1)) = []
     \<and> map_option coins (users (fst (buy (add_coins demo_listed 8 50) 8 1)) 8) = Some 0
     \<and> map_option coins (users (fst (buy (add_coins demo_listed 8 50) 8 1)) 7) = Some 100"
    by (simp add: buy_def debit_def add_coins_def demo_listed_def demo_market_def demo_store_def)
  from refused paid show ?thesis
    by (simp add: demo_listed_def demo_market_def demo_store_def)
qed

section \<open>Invariants of the store\<close>

text \<open>Apart from a part sale of a negative amount, the handlers of the source
  keep the store well-formed: the \<^verbatim>\<open>UNIQUE\<close> constraint of \<^verbatim>\<open>parts\<close>, non-negative
  amounts and non-negative balances.\<close>

lemma parts_unique_keys: "parts_unique rows = distinct (map key_of rows)"
  by (simp add: parts_unique_def key_of_def [abs_def])

lemma part_key_key_of: "part_key u t pt r p = (key_of p = (u, t, pt, r))"
  by (auto simp: part_key_def key_of_def)

lemma keys_map_amount:
  "map key_of (map (\<lambda>p. if c p then p\<lparr>p_amount := f p\<rparr> else p) rows) = map key_of rows"
  by (induction rows) (simp_all add: key_of_def)

lemma keys_comp_amount:
  "key_of \<circ> (\<lambda>p. if c p then p\<lparr>p_amount := f p\<rparr> else p) = key_of"
  by (rule ext) (simp add: key_of_def)

lemma consume_one_keys: "map key_of (consume_one u t r pt rows) = map key_of rows"
  unfolding consume_one_def by (rule keys_map_amount)

lemma fold_consume_keys: "map key_of (fold (consume_one u t r) pts rows) = map key_of rows"
  by (induction pts arbitrary: rows) (simp_all add: consume_one_keys)

lemma unique_find_self:
  assumes "parts_unique rows" and "p \<in> set rows"
  shows "find (\<lambda>q. key_of q = key_of p) rows = Some p"
  using assms
proof (induction rows)
  case Nil
  then show ?case by simp
next
  case (Cons q rows)
  show ?case
  proof (cases "p = q")
    case True
    then show ?thesis by simp
  next
    case False
    with Cons.prems have mem: "p \<in> set rows" by simp
    from Cons.prems have "key_of q \<notin> key_of ` set rows" and u: "parts_unique rows"
      by (simp_all add: parts_unique_keys)
    with mem have "key_of q \<noteq> key_of p" by force
    with Cons.IH [OF u mem] show ?thesis by simp
  qed
qed

lemma unique_stock_self:
  assumes "parts_unique rows" and "p \<in> set rows"
  shows "stock rows (p_user_id p) (p_template_id p) (p_part_type p) (p_rarity p) = p_amount p"
proof -
  have "part_key (p_user_id p) (p_template_id p) (p_part_type p) (p_rarity p)
      = (\<lambda>q. key_of q = key_of p)"
    by (rule ext) (simp add: part_key_key_of key_of_def)
  then show ?thesis
    using unique_find_self [OF assms] by (simp add: stock_def)
qed

lemma nonneg_by_stock:
  assumes "parts_unique rows"
  shows "list_all (\<lambda>p. 0 \<le> p_amount p) rows = (\<forall>u t pt r. 0 \<le> stock rows u t pt r)"
proof
  assume a: "list_all (\<lambda>p. 0 \<le> p_amount p) rows"
  show "\<forall>u t pt r. 0 \<le> stock rows u t pt r"
  proof (intro allI)
    fix u t pt r
    show "0 \<le> stock rows u t pt r"
    proof (cases "find (part_key u t pt r) rows")
      case None
      then show ?thesis by (simp add: stock_def)
    next
      case (Some p)
      then have "p \<in> set rows" by (auto simp: find_Some_iff)
      with a have "0 \<le> p_amount p" by (simp add: list_all_iff)
      with Some show ?thesis by (simp add: stock_def)
    qed
  qed
next
  assume b: "\<forall>u t pt r. 0 \<le> stock rows u t pt r"
  show "list_all (\<lambda>p. 0 \<le> p_amount p) rows"
    unfolding list_all_iff
  proof
    fix p assume "p \<in> set rows"
    from unique_stock_self [OF assms this] b show "0 \<le> p_amount p" by metis
  qed
qed


lemma try_assemble_inv:
  assumes "parts_unique (parts s)" and "amounts_nonneg s"
  shows "parts_unique (parts (fst (try_assemble s u t r k)))"
    and "amounts_nonneg (fst (try_assemble s u t r k))"
proof -
  show u': "parts_unique (parts (fst (try_assemble s u t r k)))"
    using assms(1)
    by (simp add: try_assemble_cond [OF assms(1)] parts_unique_keys fold_consume_keys)
  show "amounts_nonneg (fst (try_assemble s u t r k))"
  proof (cases "list_all (\<lambda>pt. 1 \<le> stock (parts s) u t pt r) PART_TYPES")
    case False
    then show ?thesis using assms(2) by (simp add: try_assemble_cond [OF assms(1)])
  next
    case True
    have uq: "parts_unique (fold (consume_one u t r) PART_TYPES (parts s))"
      using assms(1) by (simp add: parts_unique_keys fold_consume_keys)
    have old: "0 \<le> stock (parts s) u' t' pt' r'" for u' t' pt' r'
      using assms by (simp add: amounts_nonneg_def nonneg_by_stock)
    have "0 \<le> stock (fold (consume_one u t r) PART_TYPES (parts s)) u' t' pt' r'"
      for u' t' pt' r'
    proof (cases "u' = u \<and> t' = t \<and> r' = r \<and> pt' \<in> set PART_TYPES")
      case True
      with \<open>list_all (\<lambda>pt. 1 \<le> stock (parts s) u t pt r) PART_TYPES\<close>
      have "1 \<le> stock (parts s) u' t' pt' r'" by (simp add: list_all_iff)
      then show ?thesis using True by (auto simp: stock_fold_consume)
    next
      case False
      then show ?thesis using old [of u' t' pt' r'] by (auto simp: stock_fold_consume)
    qed
    then have "list_all (\<lambda>p. 0 \<le> p_amount p) (fold (consume_one u t r) PART_TYPES (parts s))"
      by (simp add: nonneg_by_stock [OF uq])
    with True show ?thesis
      by (simp add: try_assemble_cond [OF assms(1)] amounts_nonneg_def)
  qed
qed

lemma list_ex_key_of: "list_ex (part_key u t pt r) rows = ((u, t, pt, r) \<in> key_of ` set rows)"
  by (force simp: list_ex_iff part_key_key_of image_iff)

lemma give_parts_unique:
  assumes "parts_unique (parts s)"
  shows "parts_unique (parts (give_parts_to_user s u t pt r a))"
proof (cases "list_ex (part_key u t pt r) (parts s)")
  case True
  then show ?thesis
    using assms by (simp add: give_parts_to_user_def Let_def parts_unique_keys keys_comp_amount)
next
  case False
  then have "(u, t, pt, r) \<notin> key_of ` set (parts s)" by (simp add: list_ex_key_of)
  with False show ?thesis
    using assms by (simp add: give_parts_to_user_def Let_def parts_unique_keys key_of_def)
qed

lemma stock_map_add:
  "stock (map (\<lambda>p. if part_key u t pt r p then p\<lparr>p_amount := p_amount p + a\<rparr> else p) rows)
      u' t' pt' r'
   = stock rows u' t' pt' r'
     + (if u' = u \<and> t' = t \<and> pt' = pt \<and> r' = r \<and> list_ex (part_key u t pt r) rows
        then a else 0)"
proof (induction rows)
  case Nil
  show ?case by (simp add: stock_def)
next
  case (Cons p rows)
  show ?case
  proof (cases "part_key u' t' pt' r' p")
    case True
    then show ?thesis by (auto simp: stock_def part_key_def)
  next
    case False
    then have a: "stock (map (\<lambda>p. if part_key u t pt r p then p\<lparr>p_amount := p_amount p + a\<rparr>
          else p) (p # rows)) u' t' pt' r'
        = stock (map (\<lambda>p. if part_key u t pt r p then p\<lparr>p_amount := p_amount p + a\<rparr>
          else p) rows) u' t' pt' r'"
      by (simp add: stock_def part_key_amount)
    from False have b: "stock (p # rows) u' t' pt' r' = stock rows u' t' pt' r'"
      by (simp add: stock_def)
    from False have c: "(u' = u \<and> t' = t \<and> pt' = pt \<and> r' = r
         \<and> list_ex (part_key u t pt r) (p # rows))
       = (u' = u \<and> t' = t \<and> pt' = pt \<and> r' = r \<and> list_ex (part_key u t pt r) rows)"
      by auto
    show ?thesis unfolding a b c by (rule Cons.IH)
  qed
qed

lemma stock_append_new:
  "\<not> list_ex (part_key u t pt r) rows \<Longrightarrow>
   stock (rows @ [\<lparr>p_user_id = u, p_template_id = t, p_part_type = pt, p_rarity = r,
       p_amount = a\<rparr>]) u' t' pt' r'
   = stock rows u' t' pt' r' + (if u' = u \<and> t' = t \<and> pt' = pt \<and> r' = r then a else 0)"
proof (induction rows)
  case Nil
  show ?case by (auto simp: stock_def part_key_def)
next
  case (Cons p rows)
  then show ?case by (auto simp: stock_def part_key_def)
qed

lemma give_parts_stock:
  "stock (parts (give_parts_to_user s u t pt r a)) u' t' pt' r'
   = stock (parts s) u' t' pt' r' + (if u' = u \<and> t' = t \<and> pt' = pt \<and> r' = r then a else 0)"
proof (cases "list_ex (part_key u t pt r) (parts s)")
  case True
  then show ?thesis
    by (simp add: give_parts_to_user_def Let_def stock_map_add)
next
  case False
  then show ?thesis
    by (simp add: give_parts_to_user_def Let_def stock_append_new)
qed

lemma give_parts_nonneg:
  assumes "parts_unique (parts s)" and "amounts_nonneg s" and "0 \<le> a"
  shows "amounts_nonneg (give_parts_to_user s u t pt r a)"
proof -
  have old: "0 \<le> stock (parts s) u' t' pt' r'" for u' t' pt' r'
    using assms by (simp add: amounts_nonneg_def nonneg_by_stock)
  have "0 \<le> stock (parts (give_parts_to_user s u t pt r a)) u' t' pt' r'" for u' t' pt' r'
    using old [of u' t' pt' r'] assms(3) by (simp add: give_parts_stock)
  then show ?thesis
    by (simp add: amounts_nonneg_def nonneg_by_stock [OF give_parts_unique [OF assms(1)]])
qed


lemma base_value_nonneg: "0 \<le> get_or RARITY_BASE_VALUE rarity 10"
  by (simp add: get_or_def RARITY_BASE_VALUE_def)

lemma draw_amount_pos: "k < 3 \<Longrightarrow> 1 \<le> draw_amount rb k"
proof -
  assume "k < 3"
  then have "k = 0 \<or> k = 1 \<or> k = 2" by arith
  then show ?thesis
    by (auto simp: draw_amount_def choice_def Let_def)
qed

lemma sell_part_inv:
  shows "amounts_nonneg s \<Longrightarrow>
      amounts_nonneg (fst (cmd_sell_part s user_id template_id part_type amount tie))"
    and "parts_unique (parts s) \<Longrightarrow>
      parts_unique (parts (fst (cmd_sell_part s user_id template_id part_type amount tie)))"
    and "0 \<le> amount \<Longrightarrow> balances_nonneg s \<Longrightarrow>
      balances_nonneg (fst (cmd_sell_part s user_id template_id part_type amount tie))"
proof -
  show "amounts_nonneg (fst (cmd_sell_part s user_id template_id part_type amount tie))"
    if "amounts_nonneg s"
    using that
    by (auto simp: cmd_sell_part_def Let_def amounts_nonneg_def list_all_iff
        split: option.splits)
  show "parts_unique (parts (fst (cmd_sell_part s user_id template_id part_type amount tie)))"
    if "parts_unique (parts s)"
    using that
    by (auto simp: cmd_sell_part_def Let_def parts_unique_keys keys_comp_amount
        split: option.splits)
  show "balances_nonneg (fst (cmd_sell_part s user_id template_id part_type amount tie))"
    if "0 \<le> amount" and "balances_nonneg s"
  proof -
    have "0 \<le> get_or RARITY_BASE_VALUE rarity 10 * amount" for rarity
      using that(1) base_value_nonneg [of rarity] by simp
    then show ?thesis
      using that(2)
      by (auto simp: cmd_sell_part_def Let_def balances_nonneg_def split: option.splits if_splits)
  qed
qed


lemma ensure_user_inv:
  shows "parts (ensure_user s user) = parts s"
    and "balances_nonneg s \<Longrightarrow> balances_nonneg (ensure_user s user)"
  by (auto simp: ensure_user_def Let_def balances_nonneg_def split: option.splits if_splits)

lemma set_last_spin_inv:
  shows "parts (set_last_spin s u n) = parts s"
    and "balances_nonneg s \<Longrightarrow> balances_nonneg (set_last_spin s u n)"
  by (auto simp: set_last_spin_def balances_nonneg_def split: option.splits if_splits)

lemma proceed_to_spin_inv:
  assumes "parts_unique (parts s)" and "amounts_nonneg s" and "balances_nonneg s"
    and "rnd_qty r < 3"
  shows "parts_unique (parts (fst (proceed_to_spin s uid now r)))
    \<and> amounts_nonneg (fst (proceed_to_spin s uid now r))
    \<and> balances_nonneg (fst (proceed_to_spin s uid now r))"
proof (cases "pick_random_template s (rnd_template r)")
  case None
  then show ?thesis using assms by (simp add: proceed_to_spin_def)
next
  case (Some tmpl)
  let ?a = "draw_amount (rnd_roll r) (rnd_qty r)"
  let ?s1 = "give_parts_to_user s uid (t_id tmpl) (choice PART_TYPES (rnd_part r))
      (t_rarity tmpl) ?a"
  let ?s2 = "set_last_spin ?s1 uid now"
  have a: "0 \<le> ?a" using draw_amount_pos [OF assms(4), of "rnd_roll r"] by simp
  have u1: "parts_unique (parts ?s1)" by (rule give_parts_unique [OF assms(1)])
  have n1: "amounts_nonneg ?s1" by (rule give_parts_nonneg [OF assms(1) assms(2) a])
  have b1: "balances_nonneg ?s1"
    using assms(3) by (simp add: balances_nonneg_def give_parts_frame)
  have u2: "parts_unique (parts ?s2)" using u1 by (simp add: set_last_spin_inv)
  have n2: "amounts_nonneg ?s2" using n1 by (simp add: amounts_nonneg_def set_last_spin_inv)
  have b2: "balances_nonneg ?s2" using b1 by (rule set_last_spin_inv)
  have run: "fst (proceed_to_spin s uid now r)
      = fst (try_assemble ?s2 uid (t_id tmpl) (t_rarity tmpl) (rnd_role r))"
    using Some by (simp add: proceed_to_spin_def Let_def split_beta)
  have b3: "balances_nonneg (fst (try_assemble ?s2 uid (t_id tmpl) (t_rarity tmpl) (rnd_role r)))"
    using b2 by (simp add: balances_nonneg_def try_assemble_frame)
  from try_assemble_inv [OF u2 n2] b3 show ?thesis
    unfolding run by blast
qed

lemma daily_spin_inv:
  assumes "parts_unique (parts s)" and "amounts_nonneg s" and "balances_nonneg s"
    and "rnd_qty r < 3"
  shows "parts_unique (parts (fst (cmd_daily_spin s user now r)))
    \<and> amounts_nonneg (fst (cmd_daily_spin s user now r))
    \<and> balances_nonneg (fst (cmd_daily_spin s user now r))"
proof -
  let ?s = "ensure_user s user"
  have u: "parts_unique (parts ?s)" using assms(1) by (simp add: ensure_user_inv)
  have n: "amounts_nonneg ?s" using assms(2) by (simp add: amounts_nonneg_def ensure_user_inv)
  have b: "balances_nonneg ?s" using assms(3) by (rule ensure_user_inv)
  note P = proceed_to_spin_inv [OF u n b assms(4), of "tg_id user" now]
  show ?thesis
    using u n b P
    by (simp add: cmd_daily_spin_def Let_def split: option.splits)
qed

lemma try_each_inv:
  assumes "parts_unique (parts s)" and "amounts_nonneg s"
  shows "parts_unique (parts (fst (try_each s u t k rs)))
    \<and> amounts_nonneg (fst (try_each s u t k rs))
    \<and> users (fst (try_each s u t k rs)) = users s"
  using assms
proof (induction rs arbitrary: s)
  case Nil
  then show ?case by simp
next
  case (Cons rar rest)
  obtain s' a where ta: "try_assemble s u t rar k = (s', a)"
    by (cases "try_assemble s u t rar k")
  then have s': "s' = fst (try_assemble s u t rar k)" by simp
  have u': "parts_unique (parts s')" and n': "amounts_nonneg s'"
    unfolding s' by (rule try_assemble_inv [OF Cons.prems])+
  have us: "users s' = users s" unfolding s' by (rule try_assemble_frame)
  show ?case
  proof (cases "truthy_id a")
    case True
    then show ?thesis using ta u' n' us by simp
  next
    case False
    then show ?thesis using ta Cons.IH [OF u' n'] us by simp
  qed
qed

lemma assemble_inv:
  assumes "parts_unique (parts s)" and "amounts_nonneg s" and "balances_nonneg s"
  shows "parts_unique (parts (fst (cmd_assemble s u t k)))
    \<and> amounts_nonneg (fst (cmd_assemble s u t k))
    \<and> balances_nonneg (fst (cmd_assemble s u t k))"
proof -
  let ?rows = "remdups (map p_rarity (filter (\<lambda>p. p_user_id p = u \<and> p_template_id p = t
      \<and> p_amount p > 0) (parts s)))"
  let ?rs = "sort_key (\<lambda>x. get_or rar_order x 999) ?rows"
  have e: "fst (cmd_assemble s u t k) = (if ?rows = [] then s else fst (try_each s u t k ?rs))"
    unfolding cmd_assemble_def Let_def
    by (cases "try_each s u t k ?rs") (simp split: option.splits)
  show ?thesis
  proof (cases "?rows = []")
    case True
    then show ?thesis using assms e by simp
  next
    case False
    from try_each_inv [OF assms(1) assms(2), of u t k ?rs] assms(3) False
    show ?thesis unfolding e by (simp add: balances_nonneg_def)
  qed
qed


lemma demo_nonneg: "amounts_nonneg demo_store" "balances_nonneg demo_store"
  by (simp_all add: amounts_nonneg_def balances_nonneg_def demo_store_def demo_parts_def)

lemma demo_qty: "rnd_qty demo_rnd < 3"
  by (simp add: demo_rnd_def)

text \<open>
  \<^verbatim>\<open>give_parts_to_user\<close> keeps the \<^verbatim>\<open>UNIQUE\<close> constraint, adds the amount to the stock of
  the key it is given, creating the row when there is none, and leaves every other stock
  and the users unchanged.
\<close>

theorem give_parts_increments:
  assumes "parts_unique (parts s)"
  shows "parts_unique (parts (give_parts_to_user s u t pt r a))
    \<and> (\<forall>u' t' pt' r'.
          stock (parts (give_parts_to_user s u t pt r a)) u' t' pt' r'
          = stock (parts s) u' t' pt' r'
            + (if u' = u \<and> t' = t \<and> pt' = pt \<and> r' = r then a else 0))
    \<and> users (give_parts_to_user s u t pt r a) = users s"
  using give_parts_unique [OF assms] by (simp add: give_parts_stock give_parts_frame)

theorem give_parts_increments_witness:
  "parts_unique (parts (give_parts_to_user demo_store 7 1 ''krylya'' ''Obychnaya'' 4))
   \<and> stock (parts (give_parts_to_user demo_store 7 1 ''krylya'' ''Obychnaya'' 4))
        7 1 ''krylya'' ''Obychnaya'' = 5
   \<and> stock (parts (give_parts_to_user demo_store 9 1 ''krylya'' ''Obychnaya'' 4))
        9 1 ''krylya'' ''Obychnaya'' = 4"
proof -
  have s7: "stock (parts demo_store) 7 1 ''krylya'' ''Obychnaya'' = 1"
    and s9: "stock (parts demo_store) 9 1 ''krylya'' ''Obychnaya'' = 0"
    by (simp_all add: demo_store_def demo_parts_def stock_def part_key_def)
  from give_parts_increments [OF demo_unique, of 7 1 "''krylya''" "''Obychnaya''" 4] s7
    give_parts_increments [OF demo_unique, of 9 1 "''krylya''" "''Obychnaya''" 4] s9
  show ?thesis by simp
qed

text \<open>
  \<^verbatim>\<open>try_assemble\<close> keeps the \<^verbatim>\<open>UNIQUE\<close> constraint, the non-negative amounts and the
  non-negative balances.
\<close>

theorem try_assemble_keeps_invariants:
  assumes "parts_unique (parts s)" and "amounts_nonneg s" and "balances_nonneg s"
  shows "parts_unique (parts (fst (try_assemble s u t r k)))
    \<and> amounts_nonneg (fst (try_assemble s u t r k))
    \<and> balances_nonneg (fst (try_assemble s u t r k))"
  using try_assemble_inv [OF assms(1) assms(2)] assms(3)
  by (simp add: balances_nonneg_def try_assemble_frame)

theorem try_assemble_keeps_invariants_witness:
  "parts_unique (parts demo_store) \<and> amounts_nonneg demo_store \<and> balances_nonneg demo_store
   \<and> snd (try_assemble demo_store 7 1 ''Obychnaya'' 0) = Some 1
   \<and> parts_unique (parts (fst (try_assemble demo_store 7 1 ''Obychnaya'' 0)))
   \<and> amounts_nonneg (fst (try_assemble demo_store 7 1 ''Obychnaya'' 0))
   \<and> balances_nonneg (fst (try_assemble demo_store 7 1 ''Obychnaya'' 0))"
proof -
  have ok: "snd (try_assemble demo_store 7 1 ''Obychnaya'' 0) = Some 1"
    by (simp add: demo_try_common)
  from try_assemble_keeps_invariants [OF demo_unique demo_nonneg, of 7 1 "''Obychnaya''" 0]
    demo_unique demo_nonneg ok
  show ?thesis by blast
qed

text \<open>
  \<^verbatim>\<open>cmd_daily_spin\<close> keeps the three invariants, whatever the time and whatever the random
  source returns (the index of the quantity being one of the three it can be).
\<close>

theorem daily_spin_keeps_invariants:
  assumes "parts_unique (parts s)" and "amounts_nonneg s" and "balances_nonneg s"
    and "rnd_qty r < 3"
  shows "parts_unique (parts (fst (cmd_daily_spin s user now r)))
    \<and> amounts_nonneg (fst (cmd_daily_spin s user now r))
    \<and> balances_nonneg (fst (cmd_daily_spin s user now r))"
  using assms by (rule daily_spin_inv)

theorem daily_spin_keeps_invariants_witness:
  "rnd_qty demo_rnd < 3
   \<and> (\<forall>remaining. snd (cmd_daily_spin demo_store demo_user day demo_rnd)
          \<noteq> CooldownActive remaining)
   \<and> parts_unique (parts (fst (cmd_daily_spin demo_store demo_user day demo_rnd)))
   \<and> amounts_nonneg (fst (cmd_daily_spin demo_store demo_user day demo_rnd))
   \<and> balances_nonneg (fst (cmd_daily_spin demo_store demo_user day demo_rnd))"
proof -
  have "snd (cmd_daily_spin demo_store demo_user day demo_rnd) \<noteq> CooldownActive remaining"
    for remaining
    by (simp add: cmd_daily_spin_def ensure_user_def demo_user_def demo_store_def Let_def
        truthy_str_def proceed_to_spin_def pick_random_template_def split_beta)
  with daily_spin_keeps_invariants [OF demo_unique demo_nonneg demo_qty, of demo_user day]
    demo_qty
  show ?thesis by blast
qed

text \<open>
  The \<^verbatim>\<open>/assemble\<close> branch keeps the three invariants.
\<close>

theorem assemble_keeps_invariants:
  assumes "parts_unique (parts s)" and "amounts_nonneg s" and "balances_nonneg s"
  shows "parts_unique (parts (fst (cmd_assemble s u t k)))
    \<and> amounts_nonneg (fst (cmd_assemble s u t k))
    \<and> balances_nonneg (fst (cmd_assemble s u t k))"
  using assms by (rule assemble_inv)

theorem assemble_keeps_invariants_witness:
  "parts_unique (parts (fst (cmd_assemble demo_store 7 1 0)))
   \<and> amounts_nonneg (fst (cmd_assemble demo_store 7 1 0))
   \<and> balances_nonneg (fst (cmd_assemble demo_store 7 1 0))"
  using assemble_keeps_invariants [OF demo_unique demo_nonneg, of 7 1 0]
  by blast

text \<open>
  The \<^verbatim>\<open>/sell_part\<close> branch keeps the three invariants when the amount sold is not
  negative.
\<close>

theorem sell_part_keeps_invariants:
  assumes "0 \<le> amount"
    and "parts_unique (parts s)" and "amounts_nonneg s" and "balances_nonneg s"
  shows "parts_unique (parts (fst (cmd_sell_part s user_id template_id part_type amount tie)))
    \<and> amounts_nonneg (fst (cmd_sell_part s user_id template_id part_type amount tie))
    \<and> balances_nonneg (fst (cmd_sell_part s user_id template_id part_type amount tie))"
  using sell_part_inv(1) [OF assms(3)] sell_part_inv(2) [OF assms(2)]
    sell_part_inv(3) [OF assms(1) assms(4)]
  by blast

theorem sell_part_keeps_invariants_witness:
  "snd (cmd_sell_part demo_store 7 1 ''krylya'' 1 0) = SoldParts 1 ''krylya'' ''Obychnaya'' 50
   \<and> parts_unique (parts (fst (cmd_sell_part demo_store 7 1 ''krylya'' 1 0)))
   \<and> amounts_nonneg (fst (cmd_sell_part demo_store 7 1 ''krylya'' 1 0))
   \<and> balances_nonneg (fst (cmd_sell_part demo_store 7 1 ''krylya'' 1 0))"
proof -
  have pos: "(0::int) \<le> 1" by simp
  have sold: "snd (cmd_sell_part demo_store 7 1 ''krylya'' 1 0)
      = SoldParts 1 ''krylya'' ''Obychnaya'' 50"
    by (simp add: cmd_sell_part_run [OF demo_krylya demo_top_krylya] demo_base_value)
  from sell_part_keeps_invariants [OF pos demo_unique demo_nonneg] sold
  show ?thesis by blast
qed

end
